theory Spec2Isabelle
  imports Main
begin

section \<open>Values exchanged with the Emby server\<close>

text \<open>
  Parsed JSON as Python sees it after \<^verbatim>\<open>response.json()\<close>: \<open>JNull\<close> is Python's
  \<^verbatim>\<open>None\<close>, \<open>JStr\<close> a \<^verbatim>\<open>str\<close>, \<open>JList\<close> a \<^verbatim>\<open>list\<close> and \<open>JObj\<close> a
  \<^verbatim>\<open>dict\<close> with string keys (an association list, looked up with \<open>map_of\<close>).
  Numbers are integers (tick counts, identifiers, item counts); JSON numbers with a
  fraction are not part of the model.
\<close>

datatype json =
    JNull
  | JBool bool
  | JInt int
  | JStr string
  | JList "json list"
  | JObj "(string \<times> json) list"

type_synonym pydict = "(string \<times> json) list"

text \<open>\<^verbatim>\<open>d.get(key, default)\<close> on a dict.\<close>

definition dict_get :: "pydict \<Rightarrow> string \<Rightarrow> json \<Rightarrow> json" where
  "dict_get d k dflt = (case map_of d k of None \<Rightarrow> dflt | Some v \<Rightarrow> v)"

section \<open>api.py: the API client\<close>

subsection \<open>Constants of const.py\<close>

definition API_ENDPOINT_SYSTEM_INFO :: string where
  "API_ENDPOINT_SYSTEM_INFO = ''/System/Info''"

definition API_ENDPOINT_SYSTEM_INFO_PUBLIC :: string where
  "API_ENDPOINT_SYSTEM_INFO_PUBLIC = ''/System/Info/Public''"

definition API_ENDPOINT_SYSTEM_ENDPOINT :: string where
  "API_ENDPOINT_SYSTEM_ENDPOINT = ''/System/Endpoint''"

definition API_ENDPOINT_ITEMS_COUNTS :: string where
  "API_ENDPOINT_ITEMS_COUNTS = ''/Items/Counts''"

definition API_ENDPOINT_LIBRARY_FOLDERS :: string where
  "API_ENDPOINT_LIBRARY_FOLDERS = ''/Library/MediaFolders''"

definition API_ENDPOINT_SESSIONS :: string where
  "API_ENDPOINT_SESSIONS = ''/Sessions''"

definition API_ENDPOINT_USERS :: string where
  "API_ENDPOINT_USERS = ''/Users''"

definition API_ENDPOINT_ACTIVITY_LOG :: string where
  "API_ENDPOINT_ACTIVITY_LOG = ''/System/ActivityLog/Entries''"

definition API_ENDPOINT_SCHEDULED_TASKS :: string where
  "API_ENDPOINT_SCHEDULED_TASKS = ''/ScheduledTasks''"

definition API_ENDPOINT_DEVICES :: string where
  "API_ENDPOINT_DEVICES = ''/Devices''"

definition ERROR_AUTH :: string where
  "ERROR_AUTH = ''Authentication failed''"

definition ERROR_CONNECT :: string where
  "ERROR_CONNECT = ''Connection failed''"

definition ERROR_TIMEOUT :: string where
  "ERROR_TIMEOUT = ''Request timeout''"

definition ERROR_UNKNOWN :: string where
  "ERROR_UNKNOWN = ''Unknown error''"

subsection \<open>Exceptions\<close>

text \<open>
  Exceptions of the libraries that can surface inside the \<^verbatim>\<open>try\<close> block of
  \<^verbatim>\<open>_request\<close>. \<open>ServerTimeoutError\<close> is aiohttp's class deriving from both
  \<^verbatim>\<open>ClientError\<close> and \<^verbatim>\<open>asyncio.TimeoutError\<close>; \<open>ClientResponseError\<close> is what
  \<^verbatim>\<open>raise_for_status()\<close> raises and carries the status; \<open>OtherException\<close> stands
  for every other subclass of \<^verbatim>\<open>Exception\<close> (a JSON decoding error, for instance).
\<close>

datatype py_exception =
    TimeoutError
  | ClientError string
  | ServerTimeoutError
  | ClientResponseError nat
  | OtherException string

fun isinstance_TimeoutError :: "py_exception \<Rightarrow> bool" where
  "isinstance_TimeoutError TimeoutError = True"
| "isinstance_TimeoutError ServerTimeoutError = True"
| "isinstance_TimeoutError _ = False"

fun isinstance_ClientError :: "py_exception \<Rightarrow> bool" where
  "isinstance_ClientError (ClientError _) = True"
| "isinstance_ClientError ServerTimeoutError = True"
| "isinstance_ClientError (ClientResponseError _) = True"
| "isinstance_ClientError _ = False"

text \<open>
  The exception classes of api.py. \<open>EmbyAPIError\<close> is the base class of the other
  three; every one of them is an \<^verbatim>\<open>Exception\<close>. The second argument is the
  \<^verbatim>\<open>__cause__\<close> set by \<^verbatim>\<open>raise ... from err\<close>.
\<close>

datatype emby_error =
    EmbyAPIError string py_exception
  | EmbyAuthError string
  | EmbyConnectionError string py_exception
  | EmbyTimeoutError string py_exception

subsection \<open>One HTTP exchange\<close>

text \<open>
  What \<^verbatim>\<open>session.request(...)\<close> under \<^verbatim>\<open>async_timeout.timeout\<close> can do: raise
  before a response arrives, or deliver a response with a status and a content type,
  whose body is then read by \<^verbatim>\<open>response.json()\<close> or \<^verbatim>\<open>response.text()\<close>, each
  of which can raise in turn (the timeout can expire there as well).
\<close>

record http_response =
  status :: nat
  content_type :: string
  json_result :: "py_exception + json"
  text_result :: "py_exception + string"

datatype http_outcome =
    RequestRaised py_exception
  | Responded http_response

text \<open>
  The remote side: which exchange a request with a method, an endpoint and query
  parameters produces.
\<close>

type_synonym server = "string \<Rightarrow> string \<Rightarrow> (string \<times> int) list option \<Rightarrow> http_outcome"

text \<open>aiohttp's \<^verbatim>\<open>raise_for_status()\<close>: a status of 400 or more raises.\<close>

definition raise_for_status :: "http_response \<Rightarrow> py_exception option" where
  "raise_for_status r = (if 400 \<le> status r then Some (ClientResponseError (status r)) else None)"

text \<open>What the body of the \<^verbatim>\<open>try\<close> block raises: a library exception or the
  \<^verbatim>\<open>EmbyAuthError\<close> of the 401 branch.\<close>

datatype raised =
    RaisedPy py_exception
  | RaisedEmbyAuthError string

definition request_try_body :: "http_outcome \<Rightarrow> raised + json" where
  "request_try_body outcome =
     (case outcome of
        RequestRaised e \<Rightarrow> Inl (RaisedPy e)
      | Responded response \<Rightarrow>
          if status response = 401 then Inl (RaisedEmbyAuthError ERROR_AUTH)
          else if status response = 404 then Inr JNull
          else (case raise_for_status response of
                  Some e \<Rightarrow> Inl (RaisedPy e)
                | None \<Rightarrow>
                    if content_type response = ''application/json''
                    then (case json_result response of
                            Inl e \<Rightarrow> Inl (RaisedPy e)
                          | Inr v \<Rightarrow> Inr v)
                    else (case text_result response of
                            Inl e \<Rightarrow> Inl (RaisedPy e)
                          | Inr s \<Rightarrow> Inr (JStr s))))"

text \<open>The \<^verbatim>\<open>except\<close> clauses of \<^verbatim>\<open>_request\<close>, in the order of the source.\<close>

fun request_except :: "raised \<Rightarrow> emby_error" where
  "request_except (RaisedPy err) =
     (if isinstance_TimeoutError err then EmbyTimeoutError ERROR_TIMEOUT err
      else if isinstance_ClientError err then EmbyConnectionError ERROR_CONNECT err
      else EmbyAPIError ERROR_UNKNOWN err)"
| "request_except (RaisedEmbyAuthError msg) = EmbyAuthError msg"

text \<open>\<^verbatim>\<open>EmbyAPIClient._request\<close>: \<open>Inl\<close> is the exception raised, \<open>Inr\<close> the value
  returned.\<close>

definition request :: "http_outcome \<Rightarrow> emby_error + json" where
  "request outcome =
     (case request_try_body outcome of
        Inl r \<Rightarrow> Inl (request_except r)
      | Inr v \<Rightarrow> Inr v)"

subsection \<open>The single-endpoint operations\<close>

definition get_system_info :: "server \<Rightarrow> emby_error + json" where
  "get_system_info srv = request (srv ''GET'' API_ENDPOINT_SYSTEM_INFO None)"

definition get_system_info_public :: "server \<Rightarrow> emby_error + json" where
  "get_system_info_public srv = request (srv ''GET'' API_ENDPOINT_SYSTEM_INFO_PUBLIC None)"

definition get_system_endpoint :: "server \<Rightarrow> emby_error + json" where
  "get_system_endpoint srv = request (srv ''GET'' API_ENDPOINT_SYSTEM_ENDPOINT None)"

definition get_items_counts :: "server \<Rightarrow> emby_error + json" where
  "get_items_counts srv = request (srv ''GET'' API_ENDPOINT_ITEMS_COUNTS None)"

definition get_library_folders :: "server \<Rightarrow> emby_error + json" where
  "get_library_folders srv = request (srv ''GET'' API_ENDPOINT_LIBRARY_FOLDERS None)"

definition get_sessions :: "server \<Rightarrow> emby_error + json" where
  "get_sessions srv = request (srv ''GET'' API_ENDPOINT_SESSIONS None)"

definition get_users :: "server \<Rightarrow> emby_error + json" where
  "get_users srv = request (srv ''GET'' API_ENDPOINT_USERS None)"

definition get_activity_log :: "server \<Rightarrow> int \<Rightarrow> emby_error + json" where
  "get_activity_log srv limit =
     request (srv ''GET'' API_ENDPOINT_ACTIVITY_LOG (Some [(''limit'', limit)]))"

definition get_scheduled_tasks :: "server \<Rightarrow> emby_error + json" where
  "get_scheduled_tasks srv = request (srv ''GET'' API_ENDPOINT_SCHEDULED_TASKS None)"

definition get_devices :: "server \<Rightarrow> emby_error + json" where
  "get_devices srv = request (srv ''GET'' API_ENDPOINT_DEVICES None)"

subsection \<open>The composite fetch\<close>

text \<open>
  \<^verbatim>\<open>asyncio.gather(..., return_exceptions=True)\<close>: the nine results in the order of
  the calls, an exception raised by a call being its result. The calls do not depend
  on each other, so each result is the call's own outcome.
\<close>

definition gather :: "server \<Rightarrow> (emby_error + json) list" where
  "gather srv =
     [get_system_info srv,
      get_system_endpoint srv,
      get_items_counts srv,
      get_library_folders srv,
      get_sessions srv,
      get_users srv,
      get_activity_log srv 10,
      get_scheduled_tasks srv,
      get_devices srv]"

text \<open>\<^verbatim>\<open>results[i] if not isinstance(results[i], Exception) else fallback\<close>.\<close>

definition result_or :: "emby_error + json \<Rightarrow> json \<Rightarrow> json" where
  "result_or r fallback = (case r of Inl _ \<Rightarrow> fallback | Inr v \<Rightarrow> v)"

definition dashboard_of_results :: "(emby_error + json) list \<Rightarrow> pydict" where
  "dashboard_of_results results =
     (let system_info = result_or (results ! 0) (JObj []);
          endpoint_info = result_or (results ! 1) (JObj []);
          items_counts = result_or (results ! 2) (JObj []);
          library_folders = result_or (results ! 3) (JObj []);
          sessions = result_or (results ! 4) (JList []);
          users = result_or (results ! 5) (JList []);
          activity_log = result_or (results ! 6) (JObj []);
          scheduled_tasks = result_or (results ! 7) (JList []);
          devices = result_or (results ! 8) (JObj [])
      in [(''system_info'', system_info),
          (''endpoint_info'', endpoint_info),
          (''items_counts'', items_counts),
          (''library_folders'', library_folders),
          (''sessions'', sessions),
          (''users'', users),
          (''activity_log'', activity_log),
          (''scheduled_tasks'', scheduled_tasks),
          (''devices'', devices)])"

text \<open>\<^verbatim>\<open>EmbyAPIClient.get_dashboard_overview\<close>. It has no \<^verbatim>\<open>raise\<close> and indexes a
  list of nine results below 9, so it returns a dict.\<close>

definition get_dashboard_overview :: "server \<Rightarrow> pydict" where
  "get_dashboard_overview srv = dashboard_of_results (gather srv)"

text \<open>The names of the nine sections and their fallbacks, in the order of the
  gathered calls.\<close>

definition section_names :: "string list" where
  "section_names =
     [''system_info'', ''endpoint_info'', ''items_counts'', ''library_folders'',
      ''sessions'', ''users'', ''activity_log'', ''scheduled_tasks'', ''devices'']"

definition section_fallbacks :: "json list" where
  "section_fallbacks =
     [JObj [], JObj [], JObj [], JObj [], JList [], JList [], JObj [], JList [], JObj []]"

subsection \<open>Python operations on the values\<close>

text \<open>The built-in exceptions that the operations below raise.\<close>

datatype py_error = TypeError | AttributeError | ZeroDivisionError | OverflowError

text \<open>Truth value testing: \<^verbatim>\<open>None\<close>, \<^verbatim>\<open>False\<close>, zero and empty containers are
  false.\<close>

fun py_truthy :: "json \<Rightarrow> bool" where
  "py_truthy JNull = False"
| "py_truthy (JBool b) = b"
| "py_truthy (JInt i) = (i \<noteq> 0)"
| "py_truthy (JStr s) = (s \<noteq> [])"
| "py_truthy (JList xs) = (xs \<noteq> [])"
| "py_truthy (JObj d) = (d \<noteq> [])"

text \<open>\<^verbatim>\<open>a or b\<close>.\<close>

definition py_or :: "json \<Rightarrow> json \<Rightarrow> json" where
  "py_or a b = (if py_truthy a then a else b)"

text \<open>\<^verbatim>\<open>x.get(key, default)\<close>: only a dict has the method.\<close>

fun py_get :: "json \<Rightarrow> string \<Rightarrow> json \<Rightarrow> py_error + json" where
  "py_get (JObj d) k dflt = Inr (dict_get d k dflt)"
| "py_get _ k dflt = Inl AttributeError"

text \<open>\<^verbatim>\<open>len(x)\<close> and the items a \<^verbatim>\<open>for\<close> loop visits: the elements of a list, the
  characters of a string, the keys of a dict.\<close>

fun py_len :: "json \<Rightarrow> py_error + nat" where
  "py_len (JList xs) = Inr (length xs)"
| "py_len (JStr s) = Inr (length s)"
| "py_len (JObj d) = Inr (length d)"
| "py_len _ = Inl TypeError"

fun py_iter :: "json \<Rightarrow> py_error + json list" where
  "py_iter (JList xs) = Inr xs"
| "py_iter (JStr s) = Inr (map (\<lambda>c. JStr [c]) s)"
| "py_iter (JObj d) = Inr (map (\<lambda>kv. JStr (fst kv)) d)"
| "py_iter _ = Inl TypeError"

text \<open>\<^verbatim>\<open>needle in haystack\<close> for strings: a contiguous occurrence.\<close>

fun is_substring :: "string \<Rightarrow> string \<Rightarrow> bool" where
  "is_substring needle [] = (needle = [])"
| "is_substring needle (c # cs) =
     (take (length needle) (c # cs) = needle \<or> is_substring needle cs)"

text \<open>\<^verbatim>\<open>key in x\<close> with a string on the left: key membership for a dict, element
  membership for a list, substring test for a string, \<^verbatim>\<open>TypeError\<close> otherwise.\<close>

fun py_in :: "string \<Rightarrow> json \<Rightarrow> py_error + bool" where
  "py_in k (JObj d) = Inr (map_of d k \<noteq> None)"
| "py_in k (JList xs) = Inr (JStr k \<in> set xs)"
| "py_in k (JStr s) = Inr (is_substring k s)"
| "py_in k _ = Inl TypeError"

text \<open>\<^verbatim>\<open>str(i)\<close> for an integer: decimal digits, with a minus sign.\<close>

fun nat_digits :: "nat \<Rightarrow> string" where
  "nat_digits n =
     (if n < 10 then [''0123456789'' ! n]
      else nat_digits (n div 10) @ [''0123456789'' ! (n mod 10)])"

declare nat_digits.simps [simp del]

definition str_int :: "int \<Rightarrow> string" where
  "str_int i = (if i < 0 then CHR ''-'' # nat_digits (nat (- i)) else nat_digits (nat i))"

text \<open>
  \<^verbatim>\<open>str(x)\<close>, which is also what an f-string field without a format renders. For a
  list or a dict Python prints the \<^verbatim>\<open>repr\<close> of the container; that rendering is
  the parameter \<open>container_repr\<close>, and everything proved below holds for each choice
  of it.
\<close>

fun py_str :: "(json \<Rightarrow> string) \<Rightarrow> json \<Rightarrow> string" where
  "py_str container_repr JNull = ''None''"
| "py_str container_repr (JBool b) = (if b then ''True'' else ''False'')"
| "py_str container_repr (JInt i) = str_int i"
| "py_str container_repr (JStr s) = s"
| "py_str container_repr v = container_repr v"

subsection \<open>The connectivity probe\<close>

text \<open>\<^verbatim>\<open>EmbyAPIClient.test_connection\<close>: \<^verbatim>\<open>except Exception\<close> catches what the call
  raises and what the membership test raises.\<close>

definition test_connection :: "server \<Rightarrow> bool" where
  "test_connection srv =
     (case get_system_info_public srv of
        Inl err \<Rightarrow> False
      | Inr info \<Rightarrow>
          if info \<noteq> JNull
          then (case py_in ''ServerName'' info of Inl err \<Rightarrow> False | Inr b \<Rightarrow> b)
          else False)"

section \<open>sensor.py: the coordinator\<close>

text \<open>
  What awaiting \<^verbatim>\<open>self.client.get_dashboard_overview()\<close> can do inside
  \<^verbatim>\<open>_async_update_data\<close>: return the dict, or raise. An exception is one of the
  classes of api.py or any other exception.
\<close>

datatype exception =
    EmbyException emby_error
  | LibraryException py_exception

datatype update_exception =
    UpdateFailed string emby_error
  | Uncaught py_exception

text \<open>\<^verbatim>\<open>str(err)\<close> of an exception constructed with one message.\<close>

fun str_emby_error :: "emby_error \<Rightarrow> string" where
  "str_emby_error (EmbyAPIError msg _) = msg"
| "str_emby_error (EmbyAuthError msg) = msg"
| "str_emby_error (EmbyConnectionError msg _) = msg"
| "str_emby_error (EmbyTimeoutError msg _) = msg"

text \<open>\<^verbatim>\<open>EmbyDataUpdateCoordinator._async_update_data\<close>: every class of api.py is an
  \<^verbatim>\<open>EmbyAPIError\<close> and is turned into \<^verbatim>\<open>UpdateFailed\<close>; anything else is not
  caught here.\<close>

fun async_update_data :: "exception + pydict \<Rightarrow> update_exception + pydict" where
  "async_update_data (Inr data) = Inr data"
| "async_update_data (Inl (EmbyException err)) =
     Inl (UpdateFailed (''Error fetching Emby data: '' @ str_emby_error err) err)"
| "async_update_data (Inl (LibraryException err)) = Inl (Uncaught err)"

text \<open>
  The state of the coordinator that the entities read: \<^verbatim>\<open>coordinator.data\<close> and
  \<^verbatim>\<open>coordinator.last_update_success\<close>, with the error of the last failed cycle
  and the number of notifications sent to the listeners.
\<close>

record coordinator =
  data :: "pydict option"
  last_update_success :: bool
  last_exception :: "update_exception option"
  notifications :: nat

text \<open>
  Modelled from the spec: the refresh cycle of the base class
  \<^verbatim>\<open>DataUpdateCoordinator\<close>, which belongs to the host framework and is not among
  the sources. Section 4.2 of the specification: on success the returned structure
  is stored and the success flag set; on failure the previous snapshot is kept, the
  flag cleared and the error recorded; either way the views are notified once.
\<close>

definition refresh_cycle :: "coordinator \<Rightarrow> exception + pydict \<Rightarrow> coordinator" where
  "refresh_cycle c outcome =
     (case async_update_data outcome of
        Inr snapshot \<Rightarrow>
          c\<lparr>data := Some snapshot, last_update_success := True,
            notifications := notifications c + 1\<rparr>
      | Inl err \<Rightarrow>
          c\<lparr>last_update_success := False, last_exception := Some err,
            notifications := notifications c + 1\<rparr>)"

text \<open>Modelled from the spec: the read accessor \<^verbatim>\<open>current_snapshot()\<close> of
  section 6, which the framework provides as \<^verbatim>\<open>coordinator.data\<close>.\<close>

definition current_snapshot :: "coordinator \<Rightarrow> pydict option" where
  "current_snapshot c = data c"

text \<open>Modelled from the spec: the read accessor \<^verbatim>\<open>last_refresh_succeeded()\<close> of
  section 6, which the framework provides as \<^verbatim>\<open>coordinator.last_update_success\<close>.\<close>

definition last_refresh_succeeded :: "coordinator \<Rightarrow> bool" where
  "last_refresh_succeeded c = last_update_success c"

section \<open>Availability of the entities\<close>

text \<open>The classes that define \<^verbatim>\<open>available\<close>; every other entity class inherits
  the property from one of the four base classes.\<close>

datatype entity_class =
    EmbySensorBase
  | EmbyDeviceSensorBase
  | EmbyBinarySensorBase
  | EmbyOnlineBinarySensor
  | EmbyButtonBase
  | EmbyMediaPlayer

fun available :: "entity_class \<Rightarrow> coordinator \<Rightarrow> bool" where
  "available EmbySensorBase c = (last_update_success c \<and> data c \<noteq> None)"
| "available EmbyDeviceSensorBase c = (last_update_success c \<and> data c \<noteq> None)"
| "available EmbyBinarySensorBase c = (last_update_success c \<and> data c \<noteq> None)"
| "available EmbyOnlineBinarySensor c = True"
| "available EmbyButtonBase c = (last_update_success c \<and> data c \<noteq> None)"
| "available EmbyMediaPlayer c = last_update_success c"

section \<open>Matching sessions to devices\<close>

text \<open>\<^verbatim>\<open>_should_include_session\<close>, the same in every sensor that has a device
  filter. The filter is \<^verbatim>\<open>None\<close> or a string.\<close>

definition should_include_session ::
  "(json \<Rightarrow> string) \<Rightarrow> string option \<Rightarrow> json \<Rightarrow> py_error + bool" where
  "should_include_session container_repr device_filter session =
     (case device_filter of
        None \<Rightarrow> Inr True
      | Some f \<Rightarrow>
          if f = [] \<or> f = ''all'' then Inr True
          else (case py_get session ''DeviceId'' JNull of
                  Inl e \<Rightarrow> Inl e
                | Inr session_device_id \<Rightarrow>
                    (case py_get session ''InternalDeviceId'' (JStr []) of
                       Inl e \<Rightarrow> Inl e
                     | Inr internal \<Rightarrow>
                         Inr (session_device_id = JStr f
                              \<or> py_str container_repr internal = f))))"

section \<open>media\_player.py\<close>

datatype media_player_state = IDLE | PAUSED | PLAYING

record media_player =
  device_id :: string
  device_name :: string
  user_name :: string
  session_data :: "pydict option"
  cached_user :: json
  cached_device :: json
  cached_client :: json

text \<open>The fields as \<^verbatim>\<open>__init__\<close> sets them before it calls
  \<^verbatim>\<open>_update_session_data\<close>.\<close>

definition new_media_player :: "string \<Rightarrow> string \<Rightarrow> string \<Rightarrow> media_player" where
  "new_media_player did dname uname =
     \<lparr>device_id = did, device_name = dname, user_name = uname, session_data = None,
      cached_user = JStr uname, cached_device = JStr dname,
      cached_client = JStr ''Unknown''\<rparr>"

text \<open>The test of the loop in \<^verbatim>\<open>_update_session_data\<close> on a session that is a
  dict.\<close>

definition session_matches :: "(json \<Rightarrow> string) \<Rightarrow> string \<Rightarrow> pydict \<Rightarrow> bool" where
  "session_matches container_repr did session =
     (dict_get session ''DeviceId'' JNull = JStr did
      \<or> py_str container_repr (dict_get session ''InternalDeviceId'' (JStr [])) = did)"

text \<open>The loop: the first matching session, \<open>None\<close> when the loop ends without a
  match, \<^verbatim>\<open>AttributeError\<close> when an item met before a match has no \<^verbatim>\<open>get\<close>.\<close>

fun find_session ::
  "(json \<Rightarrow> string) \<Rightarrow> string \<Rightarrow> json list \<Rightarrow> py_error + pydict option" where
  "find_session container_repr did [] = Inr None"
| "find_session container_repr did (JObj session # rest) =
     (if session_matches container_repr did session then Inr (Some session)
      else find_session container_repr did rest)"
| "find_session container_repr did (_ # rest) = Inl AttributeError"

text \<open>\<^verbatim>\<open>EmbyMediaPlayer._update_session_data\<close>. \<open>Inl\<close> is an exception, raised
  before any field is assigned.\<close>

definition update_session_data ::
  "(json \<Rightarrow> string) \<Rightarrow> coordinator \<Rightarrow> media_player \<Rightarrow> py_error + media_player" where
  "update_session_data container_repr c self =
     (case data c of
        None \<Rightarrow> Inr (self\<lparr>session_data := None\<rparr>)
      | Some d \<Rightarrow>
          if d = [] then Inr (self\<lparr>session_data := None\<rparr>)
          else
            (let sessions = dict_get d ''sessions'' (JList []) in
             case py_len sessions of
               Inl e \<Rightarrow> Inl e
             | Inr n \<Rightarrow>
                 (case py_iter sessions of
                    Inl e \<Rightarrow> Inl e
                  | Inr items \<Rightarrow>
                      (case find_session container_repr (device_id self) items of
                         Inl e \<Rightarrow> Inl e
                       | Inr None \<Rightarrow> Inr (self\<lparr>session_data := None\<rparr>)
                       | Inr (Some session) \<Rightarrow>
                           Inr (self\<lparr>session_data := Some session,
                                  cached_user := dict_get session ''UserName'' (cached_user self),
                                  cached_device := dict_get session ''DeviceName'' (cached_device self),
                                  cached_client := dict_get session ''Client'' (cached_client self)\<rparr>)))))"

text \<open>\<^verbatim>\<open>if self._session_data\<close>: \<^verbatim>\<open>None\<close> and the empty dict are false.\<close>

definition has_session_data :: "media_player \<Rightarrow> bool" where
  "has_session_data self = (case session_data self of None \<Rightarrow> False | Some s \<Rightarrow> s \<noteq> [])"

text \<open>\<^verbatim>\<open>EmbyMediaPlayer.name\<close>.\<close>

definition name :: "(json \<Rightarrow> string) \<Rightarrow> media_player \<Rightarrow> string" where
  "name container_repr self =
     (let user = py_or (cached_user self) (JStr (user_name self));
          device = py_or (cached_device self) (JStr (device_name self));
          user' = (if has_session_data self
                   then dict_get (the (session_data self)) ''UserName'' user else user);
          device' = (if has_session_data self
                     then dict_get (the (session_data self)) ''DeviceName'' device else device)
      in ''Emby '' @ py_str container_repr user' @ '' - '' @ py_str container_repr device')"

text \<open>\<^verbatim>\<open>EmbyMediaPlayer.state\<close>.\<close>

definition state :: "media_player \<Rightarrow> py_error + media_player_state" where
  "state self =
     (if \<not> has_session_data self then Inr IDLE
      else
        (let session = the (session_data self);
             now_playing = dict_get session ''NowPlayingItem'' JNull
         in if \<not> py_truthy now_playing then Inr IDLE
            else (case py_get (dict_get session ''PlayState'' (JObj [])) ''IsPaused'' (JBool False) of
                    Inl e \<Rightarrow> Inl e
                  | Inr is_paused \<Rightarrow> Inr (if py_truthy is_paused then PAUSED else PLAYING))))"

section \<open>Floating-point arithmetic of the tick computations\<close>

text \<open>
  \<^verbatim>\<open>position_ticks / runtime_ticks\<close> and \<^verbatim>\<open>ticks / 10000000\<close> are Python's true
  division of integers: the result is the IEEE 754 binary64 number nearest to the
  exact quotient, ties going to the even significand. \<^verbatim>\<open>int(x)\<close> then truncates
  towards zero. A finite binary64 number is written \<open>Finite m e\<close>, the value
  \<open>m * 2 ^ e\<close> with \<open>\<bar>m\<bar> \<le> 2 ^ 53\<close> and \<open>- 1074 \<le> e \<le> 971\<close>; the sign of a
  zero is not kept, since no operation below observes it.
\<close>

datatype pyfloat = Finite int int | Infinite bool

text \<open>\<^verbatim>\<open>int.bit_length()\<close>.\<close>

fun bit_length :: "nat \<Rightarrow> nat" where
  "bit_length n = (if n = 0 then 0 else Suc (bit_length (n div 2)))"

declare bit_length.simps [simp del]

text \<open>\<open>le_pow2 l a b\<close> is \<open>2 ^ l \<le> a / b\<close> and \<open>floor_log2 a b\<close> the largest such
  \<open>l\<close>, for positive \<open>a\<close> and \<open>b\<close>.\<close>

definition le_pow2 :: "int \<Rightarrow> int \<Rightarrow> int \<Rightarrow> bool" where
  "le_pow2 l a b = (if 0 \<le> l then b * 2 ^ nat l \<le> a else b \<le> a * 2 ^ nat (- l))"

definition floor_log2 :: "int \<Rightarrow> int \<Rightarrow> int" where
  "floor_log2 a b =
     (let l = int (bit_length (nat a)) - int (bit_length (nat b))
      in if le_pow2 l a b then l else l - 1)"

text \<open>The integer nearest to \<open>n / d\<close>, the even one of two equally near, for
  \<open>0 \<le> n\<close> and \<open>0 < d\<close>.\<close>

definition round_half_even :: "int \<Rightarrow> int \<Rightarrow> int" where
  "round_half_even n d =
     (let q = n div d; r = n mod d
      in if 2 * r < d then q else if d < 2 * r then q + 1 else if even q then q else q + 1)"

text \<open>
  The binary64 number nearest to \<open>a / b\<close> for \<open>0 \<le> a\<close> and \<open>0 < b\<close>: the quotient is
  rounded to a multiple of \<open>2 ^ e\<close>, where \<open>e\<close> leaves 53 significant bits or is the
  exponent of the subnormal numbers; a result of \<open>2 ^ 1024\<close> or more is infinite.
\<close>

definition nearest_double :: "int \<Rightarrow> int \<Rightarrow> pyfloat" where
  "nearest_double a b =
     (if a = 0 then Finite 0 0
      else
        (let e = max (floor_log2 a b - 52) (- 1074);
             m = (if 0 \<le> e then round_half_even a (b * 2 ^ nat e)
                  else round_half_even (a * 2 ^ nat (- e)) b)
         in if 971 < e \<or> (e = 971 \<and> 2 ^ 53 \<le> m) then Infinite False else Finite m e))"

fun negate :: "pyfloat \<Rightarrow> pyfloat" where
  "negate (Finite m e) = Finite (- m) e"
| "negate (Infinite s) = Infinite (\<not> s)"

definition round_ratio :: "int \<Rightarrow> int \<Rightarrow> pyfloat" where
  "round_ratio a b = (if 0 \<le> a then nearest_double a b else negate (nearest_double (- a) b))"

text \<open>\<^verbatim>\<open>a / b\<close> for integers: \<^verbatim>\<open>ZeroDivisionError\<close> for a zero divisor,
  \<^verbatim>\<open>OverflowError\<close> when the quotient is too large for a float.\<close>

definition py_truediv :: "int \<Rightarrow> int \<Rightarrow> py_error + pyfloat" where
  "py_truediv a b =
     (if b = 0 then Inl ZeroDivisionError
      else (case (if 0 < b then round_ratio a b else round_ratio (- a) (- b)) of
              Infinite s \<Rightarrow> Inl OverflowError
            | Finite m e \<Rightarrow> Inr (Finite m e)))"

text \<open>\<^verbatim>\<open>x * 100\<close> for a float: 100 converts to a float exactly, and the product
  is the exact product, rounded.\<close>

fun float_times_100 :: "pyfloat \<Rightarrow> pyfloat" where
  "float_times_100 (Finite m e) =
     (if 0 \<le> e then round_ratio (100 * m * 2 ^ nat e) 1
      else round_ratio (100 * m) (2 ^ nat (- e)))"
| "float_times_100 (Infinite s) = Infinite s"

text \<open>\<^verbatim>\<open>int(x)\<close> for a float: truncation towards zero, \<^verbatim>\<open>OverflowError\<close> for an
  infinity.\<close>

fun py_int :: "pyfloat \<Rightarrow> py_error + int" where
  "py_int (Finite m e) =
     Inr (if 0 \<le> e then m * 2 ^ nat e
          else if 0 \<le> m then m div 2 ^ nat (- e) else - ((- m) div 2 ^ nat (- e)))"
| "py_int (Infinite s) = Inl OverflowError"

text \<open>A JSON value as an operand of arithmetic: an integer, or a truth value
  (\<^verbatim>\<open>bool\<close> is a subclass of \<^verbatim>\<open>int\<close>); anything else raises \<^verbatim>\<open>TypeError\<close>.\<close>

fun py_number :: "json \<Rightarrow> py_error + int" where
  "py_number (JInt i) = Inr i"
| "py_number (JBool b) = Inr (if b then 1 else 0)"
| "py_number _ = Inl TypeError"

text \<open>Sequencing of steps that can raise.\<close>

definition py_bind :: "'e + 'a \<Rightarrow> ('a \<Rightarrow> 'e + 'b) \<Rightarrow> 'e + 'b" where
  "py_bind m f = (case m of Inl e \<Rightarrow> Inl e | Inr v \<Rightarrow> f v)"

text \<open>\<^verbatim>\<open>v > 0\<close>.\<close>

definition py_gt_0 :: "json \<Rightarrow> py_error + bool" where
  "py_gt_0 v = py_bind (py_number v) (\<lambda>n. Inr (0 < n))"

text \<open>A \<^verbatim>\<open>for\<close> loop whose body returns from the function for some items and
  goes on to the next item for the others, with the value returned after the
  loop.\<close>

fun first_result :: "('a \<Rightarrow> py_error + 'b option) \<Rightarrow> 'b \<Rightarrow> 'a list \<Rightarrow> py_error + 'b" where
  "first_result body after [] = Inr after"
| "first_result body after (x # xs) =
     (case body x of
        Inl e \<Rightarrow> Inl e
      | Inr (Some v) \<Rightarrow> Inr v
      | Inr None \<Rightarrow> first_result body after xs)"

section \<open>sensor.py: progress and remaining time\<close>

text \<open>\<^verbatim>\<open>int((position_ticks / runtime_ticks) * 100)\<close>.\<close>

definition percent_expr :: "json \<Rightarrow> json \<Rightarrow> py_error + int" where
  "percent_expr position_ticks runtime_ticks =
     py_bind (py_number position_ticks) (\<lambda>p.
     py_bind (py_number runtime_ticks) (\<lambda>r.
     py_bind (py_truediv p r) (\<lambda>q. py_int (float_times_100 q))))"

text \<open>\<^verbatim>\<open>int(ticks / 10000000)\<close>.\<close>

definition ticks_to_seconds :: "int \<Rightarrow> py_error + int" where
  "ticks_to_seconds ticks = py_bind (py_truediv ticks 10000000) py_int"

definition seconds_expr :: "json \<Rightarrow> py_error + int" where
  "seconds_expr ticks = py_bind (py_number ticks) ticks_to_seconds"

text \<open>The progress of one playback in \<^verbatim>\<open>EmbyNowPlayingSensor.extra_state_attributes\<close>:
  0 unless the runtime is positive.\<close>

definition progress_percent :: "json \<Rightarrow> json \<Rightarrow> py_error + int" where
  "progress_percent play_state now_playing =
     py_bind (py_get play_state ''PositionTicks'' (JInt 0)) (\<lambda>position_ticks.
     py_bind (py_get now_playing ''RunTimeTicks'' (JInt 0)) (\<lambda>runtime_ticks.
     py_bind (py_gt_0 runtime_ticks) (\<lambda>positive.
       if positive then percent_expr position_ticks runtime_ticks else Inr 0)))"

text \<open>The body of the loop of \<^verbatim>\<open>EmbyProgressPercentSensor.native_value\<close>: \<open>Some\<close> is
  a \<^verbatim>\<open>return\<close>, \<open>None\<close> goes on with the next session.\<close>

definition progress_of_session ::
  "(json \<Rightarrow> string) \<Rightarrow> string option \<Rightarrow> json \<Rightarrow> py_error + int option" where
  "progress_of_session container_repr device_filter session =
     py_bind (should_include_session container_repr device_filter session) (\<lambda>included.
       if \<not> included then Inr None
       else
         py_bind (py_get session ''NowPlayingItem'' JNull) (\<lambda>now_playing.
           if py_truthy now_playing then
             py_bind (py_get session ''PlayState'' (JObj [])) (\<lambda>play_state.
             py_bind (py_get play_state ''PositionTicks'' (JInt 0)) (\<lambda>position_ticks.
             py_bind (py_get now_playing ''RunTimeTicks'' (JInt 0)) (\<lambda>runtime_ticks.
             py_bind (py_gt_0 runtime_ticks) (\<lambda>positive.
               if positive
               then py_bind (percent_expr position_ticks runtime_ticks) (\<lambda>v. Inr (Some v))
               else Inr None))))
           else Inr None))"

text \<open>\<^verbatim>\<open>EmbyProgressPercentSensor.native_value\<close>. Without coordinator data,
  \<^verbatim>\<open>self.coordinator.data.get\<close> raises \<^verbatim>\<open>AttributeError\<close>.\<close>

definition progress_percent_native_value ::
  "(json \<Rightarrow> string) \<Rightarrow> string option \<Rightarrow> coordinator \<Rightarrow> py_error + int" where
  "progress_percent_native_value container_repr device_filter c =
     (case data c of
        None \<Rightarrow> Inl AttributeError
      | Some d \<Rightarrow>
          py_bind (py_iter (dict_get d ''sessions'' (JList [])))
            (first_result (progress_of_session container_repr device_filter) 0))"

text \<open>The format \<^verbatim>\<open>{x:02d}\<close>: at least two characters, padded with zeros.\<close>

definition format_02d :: "int \<Rightarrow> string" where
  "format_02d i = (if 0 \<le> i \<and> i < 10 then CHR ''0'' # str_int i else str_int i)"

text \<open>The remaining seconds of one session in \<^verbatim>\<open>EmbyPlaybackRemainingSensor\<close>:
  both \<^verbatim>\<open>native_value\<close> and \<^verbatim>\<open>extra_state_attributes\<close> compute
  \<^verbatim>\<open>int((runtime_ticks - position_ticks) / 10000000)\<close> for the first included
  session that plays with a positive runtime and a positive position.\<close>

definition remaining_of_session ::
  "(json \<Rightarrow> string) \<Rightarrow> string option \<Rightarrow> json \<Rightarrow> py_error + int option" where
  "remaining_of_session container_repr device_filter session =
     py_bind (should_include_session container_repr device_filter session) (\<lambda>included.
       if \<not> included then Inr None
       else
         py_bind (py_get session ''NowPlayingItem'' JNull) (\<lambda>now_playing.
           if py_truthy now_playing then
             py_bind (py_get session ''PlayState'' (JObj [])) (\<lambda>play_state.
             py_bind (py_get play_state ''PositionTicks'' (JInt 0)) (\<lambda>position_ticks.
             py_bind (py_get now_playing ''RunTimeTicks'' (JInt 0)) (\<lambda>runtime_ticks.
             py_bind (py_gt_0 runtime_ticks) (\<lambda>runtime_positive.
             py_bind (if runtime_positive then py_gt_0 position_ticks else Inr False)
               (\<lambda>both_positive.
               if both_positive
               then py_bind (py_number runtime_ticks) (\<lambda>r.
                    py_bind (py_number position_ticks) (\<lambda>p.
                    py_bind (ticks_to_seconds (r - p)) (\<lambda>v. Inr (Some v))))
               else Inr None)))))
           else Inr None))"

text \<open>\<^verbatim>\<open>EmbyPlaybackRemainingSensor.native_value\<close>.\<close>

definition remaining_text :: "int \<Rightarrow> string" where
  "remaining_text remaining_seconds =
     (let hours = remaining_seconds div 3600;
          minutes = (remaining_seconds mod 3600) div 60;
          seconds = remaining_seconds mod 60
      in if 0 < hours
         then format_02d hours @ '':'' @ format_02d minutes @ '':'' @ format_02d seconds
         else format_02d minutes @ '':'' @ format_02d seconds)"

definition playback_remaining_native_value ::
  "(json \<Rightarrow> string) \<Rightarrow> string option \<Rightarrow> coordinator \<Rightarrow> py_error + string" where
  "playback_remaining_native_value container_repr device_filter c =
     (case data c of
        None \<Rightarrow> Inl AttributeError
      | Some d \<Rightarrow>
          py_bind (py_iter (dict_get d ''sessions'' (JList [])))
            (first_result
               (\<lambda>session. py_bind (remaining_of_session container_repr device_filter session)
                  (\<lambda>found. Inr (map_option remaining_text found)))
               ''00:00''))"

text \<open>\<^verbatim>\<open>EmbyPlaybackRemainingSensor.extra_state_attributes\<close>.\<close>

definition playback_remaining_extra_state_attributes ::
  "(json \<Rightarrow> string) \<Rightarrow> string option \<Rightarrow> coordinator \<Rightarrow> py_error + pydict" where
  "playback_remaining_extra_state_attributes container_repr device_filter c =
     (case data c of
        None \<Rightarrow> Inl AttributeError
      | Some d \<Rightarrow>
          py_bind (py_iter (dict_get d ''sessions'' (JList [])))
            (first_result
               (\<lambda>session. py_bind (remaining_of_session container_repr device_filter session)
                  (\<lambda>found. Inr (map_option
                     (\<lambda>remaining_seconds.
                        [(''remaining_seconds'', JInt remaining_seconds),
                         (''remaining_minutes'', JInt (remaining_seconds div 60))])
                     found)))
               []))"

section \<open>media\_player.py: duration and position\<close>

text \<open>\<^verbatim>\<open>EmbyMediaPlayer.media_duration\<close> and \<^verbatim>\<open>media_position\<close>: \<open>None\<close> without a
  session or when the tick value is missing or zero.\<close>

definition media_duration :: "media_player \<Rightarrow> py_error + int option" where
  "media_duration self =
     (if \<not> has_session_data self then Inr None
      else
        py_bind (py_get (dict_get (the (session_data self)) ''NowPlayingItem'' (JObj []))
                   ''RunTimeTicks'' JNull) (\<lambda>run_time_ticks.
          if py_truthy run_time_ticks
          then py_bind (seconds_expr run_time_ticks) (\<lambda>v. Inr (Some v))
          else Inr None))"

definition media_position :: "media_player \<Rightarrow> py_error + int option" where
  "media_position self =
     (if \<not> has_session_data self then Inr None
      else
        py_bind (py_get (dict_get (the (session_data self)) ''PlayState'' (JObj []))
                   ''PositionTicks'' JNull) (\<lambda>position_ticks.
          if py_truthy position_ticks
          then py_bind (seconds_expr position_ticks) (\<lambda>v. Inr (Some v))
          else Inr None))"

section \<open>Concrete exchanges and servers\<close>

text \<open>Inputs on which the theorems below are evaluated.\<close>

definition json_response :: "nat \<Rightarrow> json \<Rightarrow> http_outcome" where
  "json_response code v =
     Responded \<lparr>status = code, content_type = ''application/json'',
                json_result = Inr v, text_result = Inr []\<rparr>"

definition text_response :: "nat \<Rightarrow> string \<Rightarrow> http_outcome" where
  "text_response code body =
     Responded \<lparr>status = code, content_type = ''text/plain'',
                json_result = Inl (OtherException ''JSONDecodeError''),
                text_result = Inr body\<rparr>"

text \<open>Every endpoint answers 200 with a JSON object, except that the request to
  \<^verbatim>\<open>/Sessions\<close> times out.\<close>

definition sessions_time_out :: server where
  "sessions_time_out method endpoint params =
     (if endpoint = API_ENDPOINT_SESSIONS then RequestRaised TimeoutError
      else json_response 200 (JObj [(''endpoint'', JStr endpoint)]))"

text \<open>The same, except that \<^verbatim>\<open>/Sessions\<close> answers 404.\<close>

definition sessions_not_found :: server where
  "sessions_not_found method endpoint params =
     (if endpoint = API_ENDPOINT_SESSIONS then json_response 404 JNull
      else json_response 200 (JObj [(''endpoint'', JStr endpoint)]))"

definition home_server :: server where
  "home_server method endpoint params =
     json_response 200 (JObj [(''ServerName'', JStr ''Home''), (''Id'', JStr ''abc'')])"

definition unauthorized_server :: server where
  "unauthorized_server method endpoint params = json_response 401 JNull"

definition plain_text_server :: server where
  "plain_text_server method endpoint params = text_response 200 ''ServerName''"

text \<open>A rendering of containers for inputs in which no container is rendered.\<close>

definition unused_repr :: "json \<Rightarrow> string" where
  "unused_repr v = []"

text \<open>A coordinator before its first cycle, one whose first cycle stored a
  snapshot without sessions, and one whose next cycle then failed with a timeout.\<close>

definition fresh_coordinator :: coordinator where
  "fresh_coordinator =
     \<lparr>data = None, last_update_success = True, last_exception = None, notifications = 0\<rparr>"

definition stored_coordinator :: coordinator where
  "stored_coordinator =
     \<lparr>data = Some [(''sessions'', JList [])], last_update_success = True,
      last_exception = None, notifications = 1\<rparr>"

definition failed_coordinator :: coordinator where
  "failed_coordinator =
     \<lparr>data = Some [(''sessions'', JList [])], last_update_success = False,
      last_exception =
        Some (UpdateFailed ''Error fetching Emby data: Request timeout''
                (EmbyTimeoutError ''Request timeout'' TimeoutError)),
      notifications = 2\<rparr>"

text \<open>A coordinator whose snapshot holds the given sessions.\<close>

definition coordinator_with :: "json list \<Rightarrow> coordinator" where
  "coordinator_with sessions =
     \<lparr>data = Some [(''sessions'', JList sessions)], last_update_success = True,
      last_exception = None, notifications = 1\<rparr>"

text \<open>Coordinators after a first cycle whose snapshot holds one session, and media
  players for the device \<^verbatim>\<open>dev1\<close>, configured with the device name \<^verbatim>\<open>TV\<close> and the
  user name \<^verbatim>\<open>bob\<close>, as they are after a session of that device was attached.\<close>

definition unnamed_user_playing :: coordinator where
  "unnamed_user_playing =
     coordinator_with [JObj [(''DeviceId'', JStr ''dev1''),
                             (''UserName'', JStr ''''),
                             (''DeviceName'', JStr ''Apple TV''),
                             (''Client'', JStr ''Infuse'')]]"

definition other_device_playing :: coordinator where
  "other_device_playing =
     coordinator_with [JObj [(''DeviceId'', JStr ''dev2''),
                             (''InternalDeviceId'', JInt 12),
                             (''UserName'', JStr ''carol'')]]"

definition alice_playing :: coordinator where
  "alice_playing =
     coordinator_with [JObj [(''DeviceId'', JStr ''dev1''),
                             (''UserName'', JStr ''alice''),
                             (''DeviceName'', JStr ''Apple TV''),
                             (''Client'', JStr ''Infuse'')]]"

definition played_before :: media_player where
  "played_before =
     \<lparr>device_id = ''dev1'', device_name = ''TV'', user_name = ''bob'',
      session_data = Some [(''DeviceId'', JStr ''dev1''), (''UserName'', JStr ''alice''),
                           (''DeviceName'', JStr ''Apple TV''), (''Client'', JStr ''Infuse'')],
      cached_user = JStr ''alice'', cached_device = JStr ''Apple TV'',
      cached_client = JStr ''Infuse''\<rparr>"

definition attached_player :: media_player where
  "attached_player =
     \<lparr>device_id = ''dev1'', device_name = ''TV'', user_name = ''bob'',
      session_data = Some [(''DeviceId'', JStr ''dev1''), (''UserName'', JStr ''''),
                           (''DeviceName'', JStr ''Apple TV''), (''Client'', JStr ''Infuse'')],
      cached_user = JStr '''', cached_device = JStr ''Apple TV'',
      cached_client = JStr ''Infuse''\<rparr>"

text \<open>A session of the device \<^verbatim>\<open>dev1\<close> that plays at a position of a runtime, a
  coordinator whose snapshot holds that session, and the media player of the device
  with that session attached.\<close>

definition playing :: "int \<Rightarrow> int \<Rightarrow> pydict" where
  "playing position_ticks runtime_ticks =
     [(''DeviceId'', JStr ''dev1''),
      (''NowPlayingItem'',
         JObj [(''Name'', JStr ''Film''), (''RunTimeTicks'', JInt runtime_ticks)]),
      (''PlayState'', JObj [(''PositionTicks'', JInt position_ticks)])]"

definition coordinator_playing :: "int \<Rightarrow> int \<Rightarrow> coordinator" where
  "coordinator_playing position_ticks runtime_ticks =
     coordinator_with [JObj (playing position_ticks runtime_ticks)]"

definition player_playing :: "int \<Rightarrow> int \<Rightarrow> media_player" where
  "player_playing position_ticks runtime_ticks =
     (new_media_player ''dev1'' ''TV'' ''bob'')
       \<lparr>session_data := Some (playing position_ticks runtime_ticks)\<rparr>"

section \<open>The wording of the specification\<close>

text \<open>``A response containing a field'': the response is a mapping that has the
  key. This follows the words of the specification, to be compared with what
  \<open>test_connection\<close> computes.\<close>

definition contains_field :: "json \<Rightarrow> string \<Rightarrow> bool" where
  "contains_field v k = (case v of JObj d \<Rightarrow> map_of d k \<noteq> None | _ \<Rightarrow> False)"

section \<open>Properties of the composite fetch\<close>

lemma length_gather: "length (gather srv) = 9"
  by (simp add: gather_def)

lemma nat_less_9_cases:
  "i < (9::nat) \<Longrightarrow> i = 0 \<or> i = 1 \<or> i = 2 \<or> i = 3 \<or> i = 4 \<or> i = 5 \<or> i = 6 \<or> i = 7 \<or> i = 8"
  by arith

lemma dashboard_section:
  assumes "j < 9"
  shows "map_of (dashboard_of_results results) (section_names ! j)
         = Some (result_or (results ! j) (section_fallbacks ! j))"
  using nat_less_9_cases [OF assms]
  by (elim disjE) (simp_all add: dashboard_of_results_def section_names_def section_fallbacks_def)


lemmas endpoint_defs =
  API_ENDPOINT_SYSTEM_INFO_def API_ENDPOINT_SYSTEM_INFO_PUBLIC_def
  API_ENDPOINT_SYSTEM_ENDPOINT_def API_ENDPOINT_ITEMS_COUNTS_def
  API_ENDPOINT_LIBRARY_FOLDERS_def API_ENDPOINT_SESSIONS_def API_ENDPOINT_USERS_def
  API_ENDPOINT_ACTIVITY_LOG_def API_ENDPOINT_SCHEDULED_TASKS_def API_ENDPOINT_DEVICES_def

lemmas fetch_defs =
  get_system_info_def get_system_info_public_def get_system_endpoint_def get_items_counts_def
  get_library_folders_def get_sessions_def get_users_def get_activity_log_def
  get_scheduled_tasks_def get_devices_def

lemmas request_defs = request_def request_try_body_def raise_for_status_def

lemma dashboard_sections:
  "get_dashboard_overview srv =
     [(''system_info'', result_or (get_system_info srv) (JObj [])),
      (''endpoint_info'', result_or (get_system_endpoint srv) (JObj [])),
      (''items_counts'', result_or (get_items_counts srv) (JObj [])),
      (''library_folders'', result_or (get_library_folders srv) (JObj [])),
      (''sessions'', result_or (get_sessions srv) (JList [])),
      (''users'', result_or (get_users srv) (JList [])),
      (''activity_log'', result_or (get_activity_log srv 10) (JObj [])),
      (''scheduled_tasks'', result_or (get_scheduled_tasks srv) (JList [])),
      (''devices'', result_or (get_devices srv) (JObj []))]"
  by (simp add: get_dashboard_overview_def dashboard_of_results_def gather_def)

lemma one_of_nine:
  assumes "i < 9" "sub_fetches ! i = Inl e"
    and "\<forall>j<9. j \<noteq> i \<longrightarrow> sub_fetches ! j = Inr (fetched j)"
    and "k < 9"
  shows "result_or (sub_fetches ! k) fallback = (if i = k then fallback else fetched k)"
  using assms by (auto simp: result_or_def)

text \<open>
  Claim C2. Let \<open>sub_fetches\<close> be the results of the nine calls that
  \<^verbatim>\<open>get_dashboard_overview\<close> passes to \<^verbatim>\<open>asyncio.gather\<close>, in the order of the
  source. When exactly one of them, the \<open>i\<close>-th, raises (whatever the exception) and
  each other call \<open>j\<close> returns a value \<open>fetched j\<close>, the composite fetch returns the
  dict of the nine sections in which the section of the failed call holds its empty
  fallback (the empty dict or the empty list) and each other section holds exactly
  the value that its own call returned. The composite fetch itself returns:
  \<open>get_dashboard_overview\<close> has no exceptional result.
\<close>

theorem one_failure_isolated:
  assumes "sub_fetches =
      [get_system_info srv, get_system_endpoint srv, get_items_counts srv,
       get_library_folders srv, get_sessions srv, get_users srv,
       get_activity_log srv 10, get_scheduled_tasks srv, get_devices srv]"
    and "i < 9"
    and "sub_fetches ! i = Inl e"
    and "\<forall>j<9. j \<noteq> i \<longrightarrow> sub_fetches ! j = Inr (fetched j)"
  shows "get_dashboard_overview srv =
     [(''system_info'', if i = 0 then JObj [] else fetched 0),
      (''endpoint_info'', if i = 1 then JObj [] else fetched 1),
      (''items_counts'', if i = 2 then JObj [] else fetched 2),
      (''library_folders'', if i = 3 then JObj [] else fetched 3),
      (''sessions'', if i = 4 then JList [] else fetched 4),
      (''users'', if i = 5 then JList [] else fetched 5),
      (''activity_log'', if i = 6 then JObj [] else fetched 6),
      (''scheduled_tasks'', if i = 7 then JList [] else fetched 7),
      (''devices'', if i = 8 then JObj [] else fetched 8)]"
proof -
  note one = one_of_nine [OF assms(2,3,4)]
  have nth: "get_system_info srv = sub_fetches ! 0" "get_system_endpoint srv = sub_fetches ! 1"
    "get_items_counts srv = sub_fetches ! 2" "get_library_folders srv = sub_fetches ! 3"
    "get_sessions srv = sub_fetches ! 4" "get_users srv = sub_fetches ! 5"
    "get_activity_log srv 10 = sub_fetches ! 6" "get_scheduled_tasks srv = sub_fetches ! 7"
    "get_devices srv = sub_fetches ! 8"
    by (simp_all add: assms(1))
  show ?thesis
    unfolding dashboard_sections nth
    by (simp add: one)
qed

lemma fetches_sessions_time_out:
  "get_system_info sessions_time_out = Inr (JObj [(''endpoint'', JStr ''/System/Info'')])"
  "get_system_endpoint sessions_time_out = Inr (JObj [(''endpoint'', JStr ''/System/Endpoint'')])"
  "get_items_counts sessions_time_out = Inr (JObj [(''endpoint'', JStr ''/Items/Counts'')])"
  "get_library_folders sessions_time_out
     = Inr (JObj [(''endpoint'', JStr ''/Library/MediaFolders'')])"
  "get_sessions sessions_time_out = Inl (EmbyTimeoutError ''Request timeout'' TimeoutError)"
  "get_users sessions_time_out = Inr (JObj [(''endpoint'', JStr ''/Users'')])"
  "get_activity_log sessions_time_out 10
     = Inr (JObj [(''endpoint'', JStr ''/System/ActivityLog/Entries'')])"
  "get_scheduled_tasks sessions_time_out = Inr (JObj [(''endpoint'', JStr ''/ScheduledTasks'')])"
  "get_devices sessions_time_out = Inr (JObj [(''endpoint'', JStr ''/Devices'')])"
  by (simp_all add: sessions_time_out_def json_response_def request_defs fetch_defs
      endpoint_defs ERROR_TIMEOUT_def)

text \<open>The scenario in which the sessions call times out and the others succeed.\<close>

theorem one_failure_isolated_witness:
  "get_sessions sessions_time_out = Inl (EmbyTimeoutError ''Request timeout'' TimeoutError)
   \<and> get_dashboard_overview sessions_time_out =
     [(''system_info'', JObj [(''endpoint'', JStr ''/System/Info'')]),
      (''endpoint_info'', JObj [(''endpoint'', JStr ''/System/Endpoint'')]),
      (''items_counts'', JObj [(''endpoint'', JStr ''/Items/Counts'')]),
      (''library_folders'', JObj [(''endpoint'', JStr ''/Library/MediaFolders'')]),
      (''sessions'', JList []),
      (''users'', JObj [(''endpoint'', JStr ''/Users'')]),
      (''activity_log'', JObj [(''endpoint'', JStr ''/System/ActivityLog/Entries'')]),
      (''scheduled_tasks'', JObj [(''endpoint'', JStr ''/ScheduledTasks'')]),
      (''devices'', JObj [(''endpoint'', JStr ''/Devices'')])]"
proof -
  define sub_fetches where "sub_fetches =
      [get_system_info sessions_time_out, get_system_endpoint sessions_time_out,
       get_items_counts sessions_time_out, get_library_folders sessions_time_out,
       get_sessions sessions_time_out, get_users sessions_time_out,
       get_activity_log sessions_time_out 10, get_scheduled_tasks sessions_time_out,
       get_devices sessions_time_out]"
  let ?fetched = "\<lambda>j. case sub_fetches ! j of Inr v \<Rightarrow> v | Inl _ \<Rightarrow> JNull"
  have failed: "sub_fetches ! 4 = Inl (EmbyTimeoutError ''Request timeout'' TimeoutError)"
    by (simp add: sub_fetches_def fetches_sessions_time_out)
  have rest: "\<forall>j<9. j \<noteq> 4 \<longrightarrow> sub_fetches ! j = Inr (?fetched j)"
  proof (intro allI impI)
    fix j :: nat assume "j < 9" "j \<noteq> 4"
    then have "j = 0 \<or> j = 1 \<or> j = 2 \<or> j = 3 \<or> j = 5 \<or> j = 6 \<or> j = 7 \<or> j = 8" by arith
    then show "sub_fetches ! j = Inr (?fetched j)"
      by (elim disjE) (simp_all add: sub_fetches_def fetches_sessions_time_out)
  qed
  have "(4::nat) < 9" by simp
  from one_failure_isolated [OF sub_fetches_def this failed rest]
  have "get_dashboard_overview sessions_time_out =
     [(''system_info'', ?fetched 0), (''endpoint_info'', ?fetched 1),
      (''items_counts'', ?fetched 2), (''library_folders'', ?fetched 3),
      (''sessions'', JList []), (''users'', ?fetched 5), (''activity_log'', ?fetched 6),
      (''scheduled_tasks'', ?fetched 7), (''devices'', ?fetched 8)]"
    by simp
  then show ?thesis
    by (simp add: sub_fetches_def fetches_sessions_time_out)
qed

text \<open>
  Claim C1. The claim asks that each of the nine sections is present and never null,
  also when an endpoint answers 404. The section is present, and a raised failure is
  replaced by the typed fallback (\<open>dashboard_section\<close> above), but the 404 result of
  \<^verbatim>\<open>_request\<close> is \<^verbatim>\<open>None\<close>, which is not an exception and passes through: when
  \<^verbatim>\<open>/Sessions\<close> answers 404 and the other endpoints succeed, the \<open>sessions\<close>
  section is \<^verbatim>\<open>None\<close>, not the empty sequence.
\<close>

theorem not_found_section_is_null:
  "get_sessions sessions_not_found = Inr JNull
   \<and> map_of (get_dashboard_overview sessions_not_found) ''sessions'' = Some JNull
   \<and> map_of (get_dashboard_overview sessions_not_found) ''sessions'' \<noteq> Some (JList [])"
  by (simp add: get_dashboard_overview_def dashboard_of_results_def gather_def result_or_def
      sessions_not_found_def json_response_def request_defs fetch_defs endpoint_defs)

section \<open>Properties of a single request\<close>







section \<open>Properties of the connectivity probe\<close>

text \<open>What the probe returns for each result of the call. It always returns a truth
  value: \<open>test_connection\<close> has no exceptional result.\<close>

lemma test_connection_cases:
  "(get_system_info_public srv = Inl e \<longrightarrow> \<not> test_connection srv)
   \<and> (get_system_info_public srv = Inr JNull \<longrightarrow> \<not> test_connection srv)
   \<and> (get_system_info_public srv = Inr (JObj d) \<longrightarrow>
        (test_connection srv \<longleftrightarrow> contains_field (JObj d) ''ServerName''))
   \<and> (get_system_info_public srv = Inr (JList xs) \<longrightarrow>
        (test_connection srv \<longleftrightarrow> JStr ''ServerName'' \<in> set xs))
   \<and> (get_system_info_public srv = Inr (JStr s) \<longrightarrow>
        (test_connection srv \<longleftrightarrow> is_substring ''ServerName'' s))
   \<and> (get_system_info_public srv = Inr (JInt n) \<longrightarrow> \<not> test_connection srv)
   \<and> (get_system_info_public srv = Inr (JBool b) \<longrightarrow> \<not> test_connection srv)"
  by (simp add: test_connection_def contains_field_def)

text \<open>The two servers of scenario B.\<close>

lemma test_connection_scenario_B:
  "test_connection home_server \<and> \<not> test_connection unauthorized_server"
  by (simp add: test_connection_def get_system_info_public_def home_server_def
      unauthorized_server_def json_response_def request_defs)

text \<open>
  Claim C7. The claim asks that the probe returns true exactly when the public
  system-info call returns a non-null response that contains a \<^verbatim>\<open>ServerName\<close>
  field, and false, without propagating, for every exception. The second half
  holds (\<open>test_connection_cases\<close> above), and so does the first for a response that
  is a mapping. The code departs from the claim when the public endpoint answers
  200 with a body that is not JSON: \<^verbatim>\<open>_request\<close> returns the text, and
  \<^verbatim>\<open>"ServerName" in info\<close> is then a substring test. For the text body
  \<^verbatim>\<open>ServerName\<close> the probe returns true although the response is no mapping and has
  no field.
\<close>

theorem text_body_passes_probe:
  "test_connection plain_text_server
   \<and> get_system_info_public plain_text_server = Inr (JStr ''ServerName'')
   \<and> \<not> contains_field (JStr ''ServerName'') ''ServerName''"
  by (simp add: test_connection_def get_system_info_public_def plain_text_server_def
      text_response_def request_defs contains_field_def)

section \<open>Properties of the coordinator\<close>

text \<open>
  Claim C3. In a refresh cycle in which the composite operation raises (an
  exception of api.py, which \<^verbatim>\<open>_async_update_data\<close> turns into \<^verbatim>\<open>UpdateFailed\<close>,
  or any other exception), the coordinator keeps the stored snapshot, so that after
  a successful cycle followed by a failed one \<open>current_snapshot\<close> still returns the
  data of the successful cycle; \<open>last_refresh_succeeded\<close> returns false; the error
  is recorded and the views are notified once. The cycle ends in a coordinator
  state: nothing propagates to the views.
\<close>

theorem failed_cycle_keeps_snapshot:
  "current_snapshot (refresh_cycle c (Inl err)) = current_snapshot c
   \<and> \<not> last_refresh_succeeded (refresh_cycle c (Inl err))
   \<and> last_exception (refresh_cycle c (Inl err)) \<noteq> None
   \<and> notifications (refresh_cycle c (Inl err)) = notifications c + 1
   \<and> current_snapshot (refresh_cycle (refresh_cycle c (Inr snapshot)) (Inl err)) = Some snapshot
   \<and> async_update_data (Inl (EmbyException e))
       = Inl (UpdateFailed (''Error fetching Emby data: '' @ str_emby_error e) e)"
  by (cases err) (simp_all add: refresh_cycle_def current_snapshot_def last_refresh_succeeded_def)

text \<open>The two coordinator states used below arise from the cycle: a first cycle that
  stores a snapshot, then a cycle in which the fetch times out.\<close>

lemma stored_coordinator_reached:
  "refresh_cycle fresh_coordinator (Inr [(''sessions'', JList [])]) = stored_coordinator"
  by (simp add: refresh_cycle_def fresh_coordinator_def stored_coordinator_def)

lemma failed_coordinator_reached:
  "refresh_cycle stored_coordinator
     (Inl (EmbyException (EmbyTimeoutError ERROR_TIMEOUT TimeoutError))) = failed_coordinator"
  by (simp add: refresh_cycle_def stored_coordinator_def failed_coordinator_def ERROR_TIMEOUT_def)

section \<open>Properties of the availability of the entities\<close>

text \<open>
  Claim C9, as stated, fails for the online binary sensor, whose \<^verbatim>\<open>available\<close>
  returns \<^verbatim>\<open>True\<close> whatever the coordinator holds (``Always show online status''):
  after a successful cycle followed by a failed one it is available although the
  success flag is false.
\<close>

theorem online_sensor_available_after_failure:
  "available EmbyOnlineBinarySensor failed_coordinator
   \<and> \<not> (last_update_success failed_coordinator \<and> data failed_coordinator \<noteq> None)"
  by (simp add: failed_coordinator_def)

text \<open>
  Claim C9, amended. For every entity class other than the online binary sensor and
  the media player, in every coordinator state, the entity is available exactly
  when the success flag of the last cycle is true and a snapshot is stored. The
  online binary sensor is always available. The media player returns the success
  flag alone, which is the same conjunction in every state in which a snapshot is
  stored.
\<close>

theorem availability:
  "(cls \<noteq> EmbyOnlineBinarySensor \<and> cls \<noteq> EmbyMediaPlayer \<longrightarrow>
      available cls c = (last_update_success c \<and> data c \<noteq> None))
   \<and> available EmbyOnlineBinarySensor c
   \<and> (data c \<noteq> None \<longrightarrow>
        available EmbyMediaPlayer c = (last_update_success c \<and> data c \<noteq> None))"
  by (cases cls) simp_all

theorem availability_witness:
  "\<not> available EmbySensorBase failed_coordinator
   \<and> \<not> available EmbyMediaPlayer failed_coordinator
   \<and> available EmbyDeviceSensorBase stored_coordinator
   \<and> available EmbyMediaPlayer stored_coordinator"
proof -
  have f: "\<not> last_update_success failed_coordinator" "data failed_coordinator \<noteq> None"
    by (simp_all add: failed_coordinator_def)
  have g: "last_update_success stored_coordinator" "data stored_coordinator \<noteq> None"
    by (simp_all add: stored_coordinator_def)
  from availability [of EmbySensorBase failed_coordinator] f
  have 1: "\<not> available EmbySensorBase failed_coordinator"
    and 2: "\<not> available EmbyMediaPlayer failed_coordinator" by simp_all
  from availability [of EmbyDeviceSensorBase stored_coordinator] g
  have 3: "available EmbyDeviceSensorBase stored_coordinator"
    and 4: "available EmbyMediaPlayer stored_coordinator"
    by simp_all
  from 1 2 3 4 show ?thesis by simp
qed

section \<open>Properties of the matching of sessions to devices\<close>

lemma str_int_12: "str_int 12 = ''12''"
  by (simp add: str_int_def nat_digits.simps)

lemma find_session_records:
  "find_session rp did (map JObj ss) = Inr (find (session_matches rp did) ss)"
  by (induction ss) simp_all

lemma update_session_data_records:
  assumes "data c = Some d"
    and "dict_get d ''sessions'' (JList []) = JList (map JObj ss)"
  shows "update_session_data rp c self =
     Inr (case find (session_matches rp (device_id self)) ss of
            None \<Rightarrow> self\<lparr>session_data := None\<rparr>
          | Some s \<Rightarrow>
              self\<lparr>session_data := Some s,
                   cached_user := dict_get s ''UserName'' (cached_user self),
                   cached_device := dict_get s ''DeviceName'' (cached_device self),
                   cached_client := dict_get s ''Client'' (cached_client self)\<rparr>)"
proof (cases "d = []")
  case True
  with assms(2) have "ss = []" by (simp add: dict_get_def)
  with True assms(1) show ?thesis by (simp add: update_session_data_def)
next
  case False
  with assms show ?thesis
    by (simp add: update_session_data_def find_session_records split: option.splits)
qed

text \<open>
  Claim C4, as stated, fails for one of the two places it names. The claim makes
  \<^verbatim>\<open>None\<close>, the empty string and \<^verbatim>\<open>"all"\<close> match every session, and names
  \<^verbatim>\<open>_should_include_session\<close> of the sensors and \<^verbatim>\<open>_update_session_data\<close> of the
  media player. The test in the loop of \<^verbatim>\<open>_update_session_data\<close> compares the two
  identifiers of the session with the player's device identifier and has no
  wildcard: for a player whose device identifier is \<^verbatim>\<open>"all"\<close>, a session of the
  device \<^verbatim>\<open>dev2\<close> with the internal identifier 12 does not match and the update
  attaches no session, while \<^verbatim>\<open>_should_include_session\<close> with the filter
  \<^verbatim>\<open>"all"\<close> includes that session.
\<close>

theorem media_player_has_no_wildcard:
  "should_include_session unused_repr (Some ''all'')
      (JObj [(''DeviceId'', JStr ''dev2''), (''InternalDeviceId'', JInt 12),
             (''UserName'', JStr ''carol'')]) = Inr True
   \<and> \<not> session_matches unused_repr ''all''
        [(''DeviceId'', JStr ''dev2''), (''InternalDeviceId'', JInt 12),
         (''UserName'', JStr ''carol'')]
   \<and> update_session_data unused_repr other_device_playing (new_media_player ''all'' ''TV'' ''bob'')
       = Inr (new_media_player ''all'' ''TV'' ''bob'')
   \<and> session_data (new_media_player ''all'' ''TV'' ''bob'') = None"
  by (simp add: should_include_session_def session_matches_def update_session_data_def
      other_device_playing_def coordinator_with_def new_media_player_def dict_get_def
      str_int_12)

text \<open>
  Claim C4, amended. \<^verbatim>\<open>_should_include_session\<close> of the sensors returns true for
  every session, whatever it holds, when the filter is \<^verbatim>\<open>None\<close>, the empty string
  or \<^verbatim>\<open>"all"\<close>; for every other filter and every session record it returns true
  exactly when the session's \<^verbatim>\<open>DeviceId\<close> equals the filter or the string form of
  its \<^verbatim>\<open>InternalDeviceId\<close> (the empty string when the key is missing) equals the
  filter. The test of the media player is that disjunction for every device
  identifier, with no wildcard: when the sessions of the snapshot are session
  records, \<^verbatim>\<open>_update_session_data\<close> attaches the first record whose \<^verbatim>\<open>DeviceId\<close>
  equals the player's device identifier or whose \<^verbatim>\<open>InternalDeviceId\<close>, as a string,
  equals it, and takes the cached fields from that record; it attaches no session
  when there is no such record.
\<close>

theorem session_matching_rule:
  "(device_filter = None \<or> device_filter = Some [] \<or> device_filter = Some ''all'' \<longrightarrow>
      should_include_session container_repr device_filter any_session = Inr True)
   \<and> (f \<noteq> [] \<and> f \<noteq> ''all'' \<longrightarrow>
      should_include_session container_repr (Some f) (JObj session)
        = Inr (dict_get session ''DeviceId'' JNull = JStr f
               \<or> py_str container_repr (dict_get session ''InternalDeviceId'' (JStr [])) = f))
   \<and> (session_matches container_repr did session \<longleftrightarrow>
        dict_get session ''DeviceId'' JNull = JStr did
        \<or> py_str container_repr (dict_get session ''InternalDeviceId'' (JStr [])) = did)
   \<and> (data c = Some d \<and> dict_get d ''sessions'' (JList []) = JList (map JObj ss) \<longrightarrow>
        update_session_data container_repr c self =
          Inr (case find (session_matches container_repr (device_id self)) ss of
                 None \<Rightarrow> self\<lparr>session_data := None\<rparr>
               | Some s \<Rightarrow>
                   self\<lparr>session_data := Some s,
                        cached_user := dict_get s ''UserName'' (cached_user self),
                        cached_device := dict_get s ''DeviceName'' (cached_device self),
                        cached_client := dict_get s ''Client'' (cached_client self)\<rparr>))"
proof (intro conjI impI)
  assume "data c = Some d \<and> dict_get d ''sessions'' (JList []) = JList (map JObj ss)"
  then show "update_session_data container_repr c self =
          Inr (case find (session_matches container_repr (device_id self)) ss of
                 None \<Rightarrow> self\<lparr>session_data := None\<rparr>
               | Some s \<Rightarrow>
                   self\<lparr>session_data := Some s,
                        cached_user := dict_get s ''UserName'' (cached_user self),
                        cached_device := dict_get s ''DeviceName'' (cached_device self),
                        cached_client := dict_get s ''Client'' (cached_client self)\<rparr>)"
    by (simp add: update_session_data_records)
qed (auto simp: should_include_session_def session_matches_def)

text \<open>A session with the identifiers \<^verbatim>\<open>abc\<close> and 12 under four filters, the wildcards,
  and players for the devices \<^verbatim>\<open>dev1\<close> and \<^verbatim>\<open>all\<close> on a snapshot with one session
  of \<^verbatim>\<open>dev1\<close>.\<close>

theorem session_matching_rule_witness:
  "should_include_session unused_repr (Some ''12'')
      (JObj [(''DeviceId'', JStr ''abc''), (''InternalDeviceId'', JInt 12)]) = Inr True
   \<and> should_include_session unused_repr (Some ''abc'')
      (JObj [(''DeviceId'', JStr ''abc''), (''InternalDeviceId'', JInt 12)]) = Inr True
   \<and> should_include_session unused_repr (Some ''xyz'')
      (JObj [(''DeviceId'', JStr ''abc''), (''InternalDeviceId'', JInt 12)]) = Inr False
   \<and> should_include_session unused_repr (Some ''all'') (JInt 5) = Inr True
   \<and> should_include_session unused_repr None (JObj []) = Inr True
   \<and> session_matches unused_repr ''12'' [(''DeviceId'', JStr ''abc''), (''InternalDeviceId'', JInt 12)]
   \<and> update_session_data unused_repr alice_playing (new_media_player ''dev1'' ''TV'' ''bob'')
       = Inr played_before
   \<and> update_session_data unused_repr alice_playing (new_media_player ''all'' ''TV'' ''bob'')
       = Inr (new_media_player ''all'' ''TV'' ''bob'')"
proof -
  let ?s = "[(''DeviceId'', JStr ''abc''), (''InternalDeviceId'', JInt 12)]"
  let ?alice = "[(''DeviceId'', JStr ''dev1''), (''UserName'', JStr ''alice''),
                 (''DeviceName'', JStr ''Apple TV''), (''Client'', JStr ''Infuse'')]"
  let ?rp = "unused_repr"
  let ?d = "[(''sessions'', JList [JObj ?alice])]"
  have got: "dict_get ?s ''DeviceId'' JNull = JStr ''abc''"
    "py_str ?rp (dict_get ?s ''InternalDeviceId'' (JStr [])) = ''12''"
    by (simp_all add: dict_get_def str_int_12)
  have ne: "''12'' \<noteq> [] \<and> ''12'' \<noteq> ''all''" "''abc'' \<noteq> [] \<and> ''abc'' \<noteq> ''all''"
    "''xyz'' \<noteq> [] \<and> ''xyz'' \<noteq> ''all''"
    by simp_all
  have snapshot: "data alice_playing = Some ?d
      \<and> dict_get ?d ''sessions'' (JList []) = JList (map JObj [?alice])"
    by (simp add: alice_playing_def coordinator_with_def dict_get_def)
  have alice: "dict_get ?alice ''DeviceId'' JNull = JStr ''dev1''"
    "py_str ?rp (dict_get ?alice ''InternalDeviceId'' (JStr [])) = []"
    "dict_get ?alice ''UserName'' v = JStr ''alice''"
    "dict_get ?alice ''DeviceName'' v = JStr ''Apple TV''"
    "dict_get ?alice ''Client'' v = JStr ''Infuse''" for v
    by (simp_all add: dict_get_def)
  from session_matching_rule [of None ?rp "JObj []" "''12''" ?s "''12''"] got ne
  have 1: "should_include_session ?rp (Some ''12'') (JObj ?s) = Inr True"
    and 5: "should_include_session ?rp None (JObj []) = Inr True"
    and 6: "session_matches ?rp ''12'' ?s" by simp_all
  from session_matching_rule [of "Some ''all''" ?rp "JInt 5" "''abc''" ?s] got ne
  have 2: "should_include_session ?rp (Some ''abc'') (JObj ?s) = Inr True"
    and 4: "should_include_session ?rp (Some ''all'') (JInt 5) = Inr True" by simp_all
  from session_matching_rule [of _ ?rp _ "''xyz''" ?s] got ne
  have 3: "should_include_session ?rp (Some ''xyz'') (JObj ?s) = Inr False" by simp
  from session_matching_rule [where container_repr = ?rp and did = "''dev1''"
        and session = ?alice and c = alice_playing and d = ?d and ss = "[?alice]"
        and self = "new_media_player ''dev1'' ''TV'' ''bob''"] snapshot alice
  have 7: "update_session_data ?rp alice_playing (new_media_player ''dev1'' ''TV'' ''bob'')
       = Inr played_before"
    by (simp add: new_media_player_def played_before_def)
  from session_matching_rule [where container_repr = ?rp and did = "''all''"
        and session = ?alice and c = alice_playing and d = ?d and ss = "[?alice]"
        and self = "new_media_player ''all'' ''TV'' ''bob''"] snapshot alice
  have 8: "update_session_data ?rp alice_playing (new_media_player ''all'' ''TV'' ''bob'')
       = Inr (new_media_player ''all'' ''TV'' ''bob'')"
    by (simp add: new_media_player_def)
  from 1 2 3 4 5 6 7 8 show ?thesis by simp
qed

section \<open>Properties of the media player\<close>

lemma find_session_no_match:
  "\<forall>s\<in>set ss. \<not> session_matches rp did s \<Longrightarrow> find_session rp did (map JObj ss) = Inr None"
  by (induction ss) simp_all

lemma find_session_found:
  "find_session rp did items = Inr (Some s) \<Longrightarrow> JObj s \<in> set items \<and> session_matches rp did s"
  by (induction rp did items rule: find_session.induct) (auto split: if_splits)

lemma name_cleared:
  "name rp (self\<lparr>session_data := None\<rparr>)
     = ''Emby '' @ py_str rp (py_or (cached_user self) (JStr (user_name self)))
       @ '' - '' @ py_str rp (py_or (cached_device self) (JStr (device_name self)))"
  by (simp add: name_def has_session_data_def)

lemma name_stable:
  assumes "\<forall>s. session_data self = Some s \<longrightarrow>
      (map_of s ''UserName'' = None
       \<or> (map_of s ''UserName'' = Some (cached_user self) \<and> py_truthy (cached_user self)))
      \<and> (map_of s ''DeviceName'' = None
       \<or> (map_of s ''DeviceName'' = Some (cached_device self) \<and> py_truthy (cached_device self)))"
  shows "name rp (self\<lparr>session_data := None\<rparr>) = name rp self"
proof (cases "session_data self")
  case None
  then show ?thesis by (simp add: name_def has_session_data_def)
next
  case (Some s)
  with assms have
    u: "map_of s ''UserName'' = None
       \<or> (map_of s ''UserName'' = Some (cached_user self) \<and> py_truthy (cached_user self))"
    and d: "map_of s ''DeviceName'' = None
       \<or> (map_of s ''DeviceName'' = Some (cached_device self) \<and> py_truthy (cached_device self))"
    by simp_all
  from u have 1: "dict_get s ''UserName'' (py_or (cached_user self) (JStr (user_name self)))
      = py_or (cached_user self) (JStr (user_name self))"
    by (auto simp: dict_get_def py_or_def)
  from d have 2: "dict_get s ''DeviceName'' (py_or (cached_device self) (JStr (device_name self)))
      = py_or (cached_device self) (JStr (device_name self))"
    by (auto simp: dict_get_def py_or_def)
  from Some 1 2 show ?thesis
    by (simp add: name_def has_session_data_def Let_def)
qed

lemma update_no_match:
  assumes "data c = None \<or> data c = Some []
        \<or> (\<exists>d ss. data c = Some d \<and> dict_get d ''sessions'' (JList []) = JList (map JObj ss)
             \<and> (\<forall>s\<in>set ss. \<not> session_matches rp (device_id self) s))"
  shows "update_session_data rp c self = Inr (self\<lparr>session_data := None\<rparr>)"
  using assms by (auto simp: update_session_data_def find_session_no_match)

lemma update_overwrites:
  assumes "update_session_data rp c self = Inr self'"
  shows "(cached_user self' = cached_user self \<and> cached_device self' = cached_device self
          \<and> cached_client self' = cached_client self)
        \<or> (\<exists>d items session. data c = Some d
              \<and> py_iter (dict_get d ''sessions'' (JList [])) = Inr items
              \<and> JObj session \<in> set items
              \<and> session_matches rp (device_id self) session
              \<and> session_data self' = Some session
              \<and> cached_user self' = dict_get session ''UserName'' (cached_user self)
              \<and> cached_device self' = dict_get session ''DeviceName'' (cached_device self)
              \<and> cached_client self' = dict_get session ''Client'' (cached_client self))"
  using assms
  by (auto simp: update_session_data_def Let_def dest!: find_session_found
      split: option.splits if_splits sum.splits)

text \<open>When the \<^verbatim>\<open>sessions\<close> section of a snapshot is \<^verbatim>\<open>None\<close>, \<^verbatim>\<open>len(sessions)\<close>
  raises before any field is assigned, and the player stays as it was.\<close>

lemma update_raises_on_null_sessions:
  assumes "data c = Some d" and "d \<noteq> []"
    and "dict_get d ''sessions'' (JList []) = JNull"
  shows "update_session_data rp c self = Inl TypeError"
  using assms by (simp add: update_session_data_def)

text \<open>
  Claim C10, as stated, fails for the name. While a session is attached the name
  shows the session's \<^verbatim>\<open>UserName\<close>, and once no session matches it shows
  \<^verbatim>\<open>_cached_user or user_name\<close>; the two differ when the session's \<^verbatim>\<open>UserName\<close> is
  the empty string. A player for \<^verbatim>\<open>dev1\<close> configured for \<^verbatim>\<open>bob\<close> attaches such a
  session and shows \<^verbatim>\<open>Emby  - Apple TV\<close>; after an update in which no session
  matches, the cached fields are the same and the name is \<^verbatim>\<open>Emby bob - Apple TV\<close>.
\<close>

theorem name_changes_when_session_ends:
  "update_session_data unused_repr unnamed_user_playing (new_media_player ''dev1'' ''TV'' ''bob'')
     = Inr attached_player
   \<and> update_session_data unused_repr other_device_playing attached_player
     = Inr (attached_player\<lparr>session_data := None\<rparr>)
   \<and> name unused_repr attached_player = ''Emby  - Apple TV''
   \<and> name unused_repr (attached_player\<lparr>session_data := None\<rparr>) = ''Emby bob - Apple TV''"
  by (simp add: update_session_data_def unnamed_user_playing_def other_device_playing_def
      coordinator_with_def new_media_player_def attached_player_def
      dict_get_def session_matches_def name_def has_session_data_def py_or_def str_int_12)

text \<open>
  Claim C10, amended. Take an update in which the coordinator holds no data
  (\<^verbatim>\<open>None\<close> or an empty snapshot), or in which the \<^verbatim>\<open>sessions\<close> section of the
  snapshot is a list of session records (the empty list when the section is
  missing) none of which matches the player's device. The update returns with
  \<^verbatim>\<open>_cached_user\<close>, \<^verbatim>\<open>_cached_device\<close> and \<^verbatim>\<open>_cached_client\<close> unchanged and no
  session attached, the state is idle, and the name is computed from the unchanged
  cached fields, \<^verbatim>\<open>Emby {_cached_user or user_name} - {_cached_device or device_name}\<close>.
  That name is the name shown before the update when no session was attached
  before, or when the \<^verbatim>\<open>UserName\<close> and \<^verbatim>\<open>DeviceName\<close> of the attached session,
  where present, are the cached values and are not empty. An update that returns
  either leaves the three cached fields as they were or takes each of them from the
  \<^verbatim>\<open>UserName\<close>, \<^verbatim>\<open>DeviceName\<close> and \<^verbatim>\<open>Client\<close> of a matching session of the
  snapshot (keeping the old value where the session has no such key). A new player
  starts with the configured user name, the configured device name and
  \<^verbatim>\<open>Unknown\<close>. The statement is about snapshots whose \<^verbatim>\<open>sessions\<close> section is a
  list of records; a section that is \<^verbatim>\<open>None\<close> is outside it
  (\<open>update_raises_on_null_sessions\<close> above).
\<close>

theorem no_match_keeps_cache:
  "((data c = None \<or> data c = Some []
     \<or> (\<exists>d ss. data c = Some d \<and> dict_get d ''sessions'' (JList []) = JList (map JObj ss)
          \<and> (\<forall>s\<in>set ss. \<not> session_matches container_repr (device_id self) s))) \<longrightarrow>
    (\<exists>after. update_session_data container_repr c self = Inr after
       \<and> cached_user after = cached_user self
       \<and> cached_device after = cached_device self
       \<and> cached_client after = cached_client self
       \<and> session_data after = None
       \<and> state after = Inr IDLE
       \<and> name container_repr after
           = ''Emby '' @ py_str container_repr (py_or (cached_user self) (JStr (user_name self)))
             @ '' - '' @ py_str container_repr (py_or (cached_device self) (JStr (device_name self)))
       \<and> ((\<forall>s. session_data self = Some s \<longrightarrow>
              (map_of s ''UserName'' = None
               \<or> (map_of s ''UserName'' = Some (cached_user self) \<and> py_truthy (cached_user self)))
              \<and> (map_of s ''DeviceName'' = None
               \<or> (map_of s ''DeviceName'' = Some (cached_device self)
                   \<and> py_truthy (cached_device self)))) \<longrightarrow>
            name container_repr after = name container_repr self)))
   \<and> (update_session_data container_repr c self = Inr self' \<longrightarrow>
        (cached_user self' = cached_user self \<and> cached_device self' = cached_device self
         \<and> cached_client self' = cached_client self)
        \<or> (\<exists>d items session. data c = Some d
              \<and> py_iter (dict_get d ''sessions'' (JList [])) = Inr items
              \<and> JObj session \<in> set items
              \<and> session_matches container_repr (device_id self) session
              \<and> session_data self' = Some session
              \<and> cached_user self' = dict_get session ''UserName'' (cached_user self)
              \<and> cached_device self' = dict_get session ''DeviceName'' (cached_device self)
              \<and> cached_client self' = dict_get session ''Client'' (cached_client self)))
   \<and> cached_user (new_media_player did dname uname) = JStr uname
   \<and> cached_device (new_media_player did dname uname) = JStr dname
   \<and> cached_client (new_media_player did dname uname) = JStr ''Unknown''"
proof (intro conjI impI)
  assume h: "data c = None \<or> data c = Some []
     \<or> (\<exists>d ss. data c = Some d \<and> dict_get d ''sessions'' (JList []) = JList (map JObj ss)
          \<and> (\<forall>s\<in>set ss. \<not> session_matches container_repr (device_id self) s))"
  let ?cleared = "self\<lparr>session_data := None\<rparr>"
  have idle: "state ?cleared = Inr IDLE"
    by (simp add: state_def has_session_data_def)
  show "\<exists>after. update_session_data container_repr c self = Inr after
       \<and> cached_user after = cached_user self
       \<and> cached_device after = cached_device self
       \<and> cached_client after = cached_client self
       \<and> session_data after = None
       \<and> state after = Inr IDLE
       \<and> name container_repr after
           = ''Emby '' @ py_str container_repr (py_or (cached_user self) (JStr (user_name self)))
             @ '' - '' @ py_str container_repr (py_or (cached_device self) (JStr (device_name self)))
       \<and> ((\<forall>s. session_data self = Some s \<longrightarrow>
              (map_of s ''UserName'' = None
               \<or> (map_of s ''UserName'' = Some (cached_user self) \<and> py_truthy (cached_user self)))
              \<and> (map_of s ''DeviceName'' = None
               \<or> (map_of s ''DeviceName'' = Some (cached_device self)
                   \<and> py_truthy (cached_device self)))) \<longrightarrow>
            name container_repr after = name container_repr self)"
    by (rule exI [of _ ?cleared])
       (use update_no_match [OF h] idle name_cleared [of container_repr self]
          name_stable [of self container_repr] in simp)
next
  assume "update_session_data container_repr c self = Inr self'"
  from update_overwrites [OF this]
  show "(cached_user self' = cached_user self \<and> cached_device self' = cached_device self
         \<and> cached_client self' = cached_client self)
        \<or> (\<exists>d items session. data c = Some d
              \<and> py_iter (dict_get d ''sessions'' (JList [])) = Inr items
              \<and> JObj session \<in> set items
              \<and> session_matches container_repr (device_id self) session
              \<and> session_data self' = Some session
              \<and> cached_user self' = dict_get session ''UserName'' (cached_user self)
              \<and> cached_device self' = dict_get session ''DeviceName'' (cached_device self)
              \<and> cached_client self' = dict_get session ''Client'' (cached_client self))" .
qed (simp_all add: new_media_player_def)


theorem no_match_keeps_cache_witness:
  "(\<exists>after. update_session_data unused_repr other_device_playing played_before = Inr after
      \<and> cached_user after = JStr ''alice''
      \<and> cached_device after = JStr ''Apple TV''
      \<and> cached_client after = JStr ''Infuse''
      \<and> state after = Inr IDLE
      \<and> name unused_repr after = ''Emby alice - Apple TV''
      \<and> name unused_repr after = name unused_repr played_before)
   \<and> update_session_data unused_repr alice_playing (new_media_player ''dev1'' ''TV'' ''bob'')
       = Inr played_before
   \<and> cached_user played_before \<noteq> cached_user (new_media_player ''dev1'' ''TV'' ''bob'')
   \<and> (\<exists>session. session_data played_before = Some session
         \<and> session_matches unused_repr ''dev1'' session
         \<and> cached_user played_before = dict_get session ''UserName'' (JStr ''bob'')
         \<and> cached_device played_before = dict_get session ''DeviceName'' (JStr ''TV'')
         \<and> cached_client played_before = dict_get session ''Client'' (JStr ''Unknown''))"
proof -
  let ?rp = "unused_repr"
  let ?new = "new_media_player ''dev1'' ''TV'' ''bob''"
  let ?other = "[(''DeviceId'', JStr ''dev2''), (''InternalDeviceId'', JInt 12),
                 (''UserName'', JStr ''carol'')]"
  have no_match: "data other_device_playing = None \<or> data other_device_playing = Some []
     \<or> (\<exists>d ss. data other_device_playing = Some d
          \<and> dict_get d ''sessions'' (JList []) = JList (map JObj ss)
          \<and> (\<forall>s\<in>set ss. \<not> session_matches ?rp (device_id played_before) s))"
  proof -
    have "data other_device_playing = Some [(''sessions'', JList [JObj ?other])]"
      by (simp add: other_device_playing_def coordinator_with_def)
    moreover have "dict_get [(''sessions'', JList [JObj ?other])] ''sessions'' (JList [])
        = JList (map JObj [?other])"
      by (simp add: dict_get_def)
    moreover have "\<forall>s\<in>set [?other]. \<not> session_matches ?rp (device_id played_before) s"
      by (simp add: session_matches_def dict_get_def played_before_def str_int_12)
    ultimately show ?thesis by blast
  qed
  have stable: "\<forall>s. session_data played_before = Some s \<longrightarrow>
      (map_of s ''UserName'' = None
       \<or> (map_of s ''UserName'' = Some (cached_user played_before)
           \<and> py_truthy (cached_user played_before)))
      \<and> (map_of s ''DeviceName'' = None
       \<or> (map_of s ''DeviceName'' = Some (cached_device played_before)
           \<and> py_truthy (cached_device played_before)))"
    by (simp add: played_before_def)
  have matched: "update_session_data ?rp alice_playing ?new = Inr played_before"
    by (simp add: update_session_data_def alice_playing_def coordinator_with_def
        new_media_player_def played_before_def dict_get_def
        session_matches_def)
  have changed: "cached_user played_before \<noteq> cached_user ?new"
    by (simp add: played_before_def new_media_player_def)
  from no_match_keeps_cache [of other_device_playing ?rp played_before,
         THEN conjunct1, THEN mp, OF no_match]
  obtain after where a:
    "update_session_data ?rp other_device_playing played_before = Inr after"
    "cached_user after = cached_user played_before"
    "cached_device after = cached_device played_before"
    "cached_client after = cached_client played_before"
    "state after = Inr IDLE"
    "name ?rp after
       = ''Emby '' @ py_str ?rp (py_or (cached_user played_before) (JStr (user_name played_before)))
         @ '' - ''
         @ py_str ?rp (py_or (cached_device played_before) (JStr (device_name played_before)))"
    "(\<forall>s. session_data played_before = Some s \<longrightarrow>
        (map_of s ''UserName'' = None
         \<or> (map_of s ''UserName'' = Some (cached_user played_before)
             \<and> py_truthy (cached_user played_before)))
        \<and> (map_of s ''DeviceName'' = None
         \<or> (map_of s ''DeviceName'' = Some (cached_device played_before)
             \<and> py_truthy (cached_device played_before)))) \<longrightarrow>
     name ?rp after = name ?rp played_before"
    by blast
  from a(7) stable have same: "name ?rp after = name ?rp played_before" by blast
  have cached: "cached_user played_before = JStr ''alice''"
    "cached_device played_before = JStr ''Apple TV''"
    "cached_client played_before = JStr ''Infuse''"
    by (simp_all add: played_before_def)
  have shown: "name ?rp after = ''Emby alice - Apple TV''"
    using a(6) by (simp add: cached py_or_def)
  from a(1-5) cached shown same
  have 1: "\<exists>after. update_session_data ?rp other_device_playing played_before = Inr after
      \<and> cached_user after = JStr ''alice''
      \<and> cached_device after = JStr ''Apple TV''
      \<and> cached_client after = JStr ''Infuse''
      \<and> state after = Inr IDLE
      \<and> name ?rp after = ''Emby alice - Apple TV''
      \<and> name ?rp after = name ?rp played_before"
    by auto
  from no_match_keeps_cache [of alice_playing ?rp ?new played_before,
         THEN conjunct2, THEN conjunct1, THEN mp, OF matched] changed
  obtain session where s:
    "session_data played_before = Some session"
    "session_matches ?rp (device_id ?new) session"
    "cached_user played_before = dict_get session ''UserName'' (cached_user ?new)"
    "cached_device played_before = dict_get session ''DeviceName'' (cached_device ?new)"
    "cached_client played_before = dict_get session ''Client'' (cached_client ?new)"
    by blast
  then have 2: "\<exists>session. session_data played_before = Some session
         \<and> session_matches ?rp ''dev1'' session
         \<and> cached_user played_before = dict_get session ''UserName'' (JStr ''bob'')
         \<and> cached_device played_before = dict_get session ''DeviceName'' (JStr ''TV'')
         \<and> cached_client played_before = dict_get session ''Client'' (JStr ''Unknown'')"
    by (simp add: new_media_player_def)
  from 1 2 matched changed show ?thesis by blast
qed

section \<open>Properties of the tick arithmetic\<close>

lemma round_half_even_lower: "0 < d \<Longrightarrow> n div d \<le> round_half_even n d"
  by (simp add: round_half_even_def Let_def)

lemma round_half_even_upper:
  assumes "0 < d"
  shows "2 * d * round_half_even n d \<le> 2 * n + d"
proof -
  define q where "q = n div d"
  define r where "r = n mod d"
  have n: "n = d * q + r" by (simp add: q_def r_def)
  have r: "0 \<le> r" "r < d" using assms by (simp_all add: r_def)
  have m: "round_half_even n d = (if 2 * r < d then q else if d < 2 * r then q + 1
                                   else if even q then q else q + 1)"
    by (simp add: round_half_even_def Let_def q_def r_def)
  have dq: "2 * d * (q + 1) = 2 * (d * q) + 2 * d" by (simp add: algebra_simps)
  show ?thesis
  proof (cases "2 * r < d")
    case True
    with m n r show ?thesis by (simp add: algebra_simps)
  next
    case False
    then have "round_half_even n d \<le> q + 1" using m by simp
    then have "2 * d * round_half_even n d \<le> 2 * d * (q + 1)"
      using assms by (simp add: mult_left_mono)
    with dq n False show ?thesis by linarith
  qed
qed

lemma rounded_quotient_seconds:
  assumes t: "0 \<le> t" and P: "8388608 \<le> P"
    and m: "m = round_half_even (t * P) 10000000"
  shows "0 \<le> m \<and> m div P = t div 10000000"
proof -
  define s where "s = t div 10000000"
  have s0: "0 \<le> s" using t by (simp add: s_def pos_imp_zdiv_nonneg_iff)
  have lower: "s * P \<le> m"
  proof -
    have "s * 10000000 \<le> t" by (simp add: s_def)
    then have "(s * 10000000) * P \<le> t * P" using P by (intro mult_right_mono) simp_all
    then have "(s * P) * 10000000 \<le> t * P" by (simp add: algebra_simps)
    then have "((s * P) * 10000000) div 10000000 \<le> (t * P) div 10000000"
      by (rule zdiv_mono1) simp
    then have "s * P \<le> (t * P) div 10000000" by simp
    also have "\<dots> \<le> m" unfolding m by (rule round_half_even_lower) simp
    finally show ?thesis .
  qed
  have upper: "m < (s + 1) * P"
  proof -
    have "t = 10000000 * s + t mod 10000000" by (simp add: s_def)
    moreover have "t mod 10000000 < 10000000" by simp
    ultimately have "t + 1 \<le> 10000000 * s + 10000000" by linarith
    then have "t + 1 \<le> (s + 1) * 10000000" by (simp add: algebra_simps)
    then have "(t + 1) * P \<le> ((s + 1) * 10000000) * P"
      using P by (intro mult_right_mono) simp_all
    then have tP: "t * P + P \<le> 10000000 * ((s + 1) * P)" by (simp add: algebra_simps)
    have "2 * 10000000 * m \<le> 2 * (t * P) + 10000000"
      unfolding m by (rule round_half_even_upper) simp
    with tP P have "2 * 10000000 * m < 2 * 10000000 * ((s + 1) * P)" by linarith
    then show ?thesis by simp
  qed
  have m0: "0 \<le> m"
  proof -
    have "0 \<le> s * P" using s0 P by simp
    with lower show ?thesis by simp
  qed
  have "m div P = s"
  proof (rule int_div_pos_eq [of m P s "m - s * P"])
    show "m = P * s + (m - s * P)" by (simp add: algebra_simps)
    show "0 \<le> m - s * P" using lower by simp
    show "m - s * P < P" using upper by (simp add: algebra_simps)
  qed
  with m0 show ?thesis by (simp add: s_def)
qed

lemma bit_length_le: "n < 2 ^ k \<Longrightarrow> bit_length n \<le> k"
proof (induction k arbitrary: n)
  case 0
  then have "n = 0" by simp
  then show ?case by (simp add: bit_length.simps [of 0])
next
  case (Suc k)
  then have "n div 2 < 2 ^ k" by simp
  from Suc.IH [OF this] show ?case by (simp add: bit_length.simps [of n])
qed

lemma bit_length_10000000: "bit_length 10000000 = 24"
  by (simp add: bit_length.simps)

lemma py_bind_Inl:
  "py_bind m f = Inl e \<Longrightarrow> m = Inl e \<or> (\<exists>v. m = Inr v \<and> f v = Inl e)"
  by (cases m) (simp_all add: py_bind_def)

lemma py_truediv_zero_division: "py_truediv a b = Inl ZeroDivisionError \<Longrightarrow> b = 0"
  by (cases "b = 0") (simp_all add: py_truediv_def split: pyfloat.splits)

lemma py_int_no_zero_division: "py_int x \<noteq> Inl ZeroDivisionError"
  by (cases x) simp_all

lemma py_number_no_zero_division: "py_number v \<noteq> Inl ZeroDivisionError"
  by (cases v) simp_all

lemma py_get_no_zero_division: "py_get v k d \<noteq> Inl ZeroDivisionError"
  by (cases v) simp_all

lemma percent_expr_zero_division:
  assumes "percent_expr p r = Inl ZeroDivisionError"
  shows "py_number r = Inr 0"
proof -
  from assms [unfolded percent_expr_def] py_number_no_zero_division [of p]
  obtain pv where "py_bind (py_number r)
      (\<lambda>r. py_bind (py_truediv pv r) (\<lambda>q. py_int (float_times_100 q))) = Inl ZeroDivisionError"
    by (blast dest: py_bind_Inl)
  with py_number_no_zero_division [of r]
  obtain rv where rv: "py_number r = Inr rv"
    and "py_bind (py_truediv pv rv) (\<lambda>q. py_int (float_times_100 q)) = Inl ZeroDivisionError"
    by (blast dest: py_bind_Inl)
  with py_int_no_zero_division have "py_truediv pv rv = Inl ZeroDivisionError"
    by (blast dest: py_bind_Inl)
  then have "rv = 0" by (rule py_truediv_zero_division)
  with rv show ?thesis by simp
qed

lemma py_gt_0_True: "py_gt_0 v = Inr True \<Longrightarrow> py_number v \<noteq> Inr 0"
  by (cases "py_number v") (auto simp: py_gt_0_def py_bind_def)

lemma py_gt_0_no_zero_division: "py_gt_0 v \<noteq> Inl ZeroDivisionError"
  using py_number_no_zero_division [of v]
  by (cases "py_number v") (auto simp: py_gt_0_def py_bind_def)

lemma progress_percent_no_zero_division:
  "progress_percent play_state now_playing \<noteq> Inl ZeroDivisionError"
proof
  assume "progress_percent play_state now_playing = Inl ZeroDivisionError"
  from this [unfolded progress_percent_def] py_get_no_zero_division
  obtain position_ticks where "py_bind (py_get now_playing ''RunTimeTicks'' (JInt 0))
      (\<lambda>runtime_ticks. py_bind (py_gt_0 runtime_ticks)
         (\<lambda>positive. if positive then percent_expr position_ticks runtime_ticks else Inr 0))
      = Inl ZeroDivisionError"
    by (blast dest: py_bind_Inl)
  with py_get_no_zero_division
  obtain runtime_ticks where "py_bind (py_gt_0 runtime_ticks)
         (\<lambda>positive. if positive then percent_expr position_ticks runtime_ticks else Inr 0)
      = Inl ZeroDivisionError"
    by (blast dest: py_bind_Inl)
  with py_gt_0_no_zero_division
  obtain positive where p: "py_gt_0 runtime_ticks = Inr positive"
    and "(if positive then percent_expr position_ticks runtime_ticks else Inr 0)
      = Inl ZeroDivisionError"
    by (blast dest: py_bind_Inl)
  then have "positive" "percent_expr position_ticks runtime_ticks = Inl ZeroDivisionError"
    by (simp_all split: if_splits)
  with p have "py_gt_0 runtime_ticks = Inr True"
    and "py_number runtime_ticks = Inr 0"
    by (simp_all add: percent_expr_zero_division)
  with py_gt_0_True show False by blast
qed


lemma floor_log2_ticks:
  assumes "0 < t" "t < 2 ^ 30 * 10000000"
  shows "floor_log2 t 10000000 \<le> 29"
proof -
  have "t < 2 ^ 54" using assms(2) by simp
  then have "nat t < 2 ^ 54" using assms(1) by (simp add: nat_less_iff)
  then have "bit_length (nat t) \<le> 54" by (rule bit_length_le)
  then have l: "int (bit_length (nat t)) - int (bit_length (nat 10000000)) \<le> 30"
    by (simp add: bit_length_10000000)
  show ?thesis
  proof (cases "int (bit_length (nat t)) - int (bit_length (nat 10000000)) = 30")
    case True
    have "\<not> le_pow2 30 t 10000000" using assms by (simp add: le_pow2_def)
    with True show ?thesis by (simp add: floor_log2_def Let_def)
  next
    case False
    with l have "int (bit_length (nat t)) - int (bit_length (nat 10000000)) \<le> 29" by simp
    then show ?thesis by (simp add: floor_log2_def Let_def)
  qed
qed

lemma nearest_double_ticks:
  assumes "0 < t" "e = max (floor_log2 t 10000000 - 52) (- 1074)" "e \<le> - 23"
  shows "nearest_double t 10000000 = Finite (round_half_even (t * 2 ^ nat (- e)) 10000000) e"
proof -
  have "t \<noteq> 0" "\<not> 0 \<le> e" "\<not> 971 < e" "e \<noteq> 971" using assms by simp_all
  then show ?thesis
    unfolding nearest_double_def Let_def
    unfolding assms(2) [symmetric]
    by simp
qed

lemma ticks_to_seconds_floor:
  assumes "0 \<le> t" "t < 2 ^ 30 * 10000000"
  shows "ticks_to_seconds t = Inr (t div 10000000)"
proof (cases "t = 0")
  case True
  then show ?thesis
    by (simp add: ticks_to_seconds_def py_bind_def py_truediv_def round_ratio_def
        nearest_double_def)
next
  case False
  with assms have pos: "0 < t" by simp
  define e where "e = max (floor_log2 t 10000000 - 52) (- 1074)"
  define m where "m = round_half_even (t * 2 ^ nat (- e)) 10000000"
  have e: "e \<le> - 23" using floor_log2_ticks [OF pos assms(2)] by (simp add: e_def)
  then have "23 \<le> nat (- e)" by simp
  then have "(2::int) ^ 23 \<le> 2 ^ nat (- e)" by (rule power_increasing) simp
  then have P: "8388608 \<le> (2::int) ^ nat (- e)" by simp
  have nd: "nearest_double t 10000000 = Finite m e"
    unfolding m_def using pos e_def e by (rule nearest_double_ticks)
  from rounded_quotient_seconds [OF assms(1) P m_def]
  have m: "0 \<le> m" "m div 2 ^ nat (- e) = t div 10000000" by simp_all
  have neg: "\<not> 0 \<le> e" using e by simp
  have "py_int (Finite m e) = Inr (t div 10000000)"
    using m neg by simp
  moreover have "py_truediv t 10000000 = Inr (Finite m e)"
    using assms(1) nd by (simp add: py_truediv_def round_ratio_def)
  ultimately show ?thesis
    by (simp add: ticks_to_seconds_def py_bind_def)
qed

lemmas float_defs =
  py_truediv_def round_ratio_def nearest_double_def floor_log2_def le_pow2_def
  round_half_even_def bit_length.simps Let_def

lemma seconds_15: "ticks_to_seconds 150000000 = Inr 15"
  by (simp add: ticks_to_seconds_def py_bind_def float_defs)

lemma seconds_beyond: "ticks_to_seconds 10737418249999999 = Inr 1073741825"
  by (simp add: ticks_to_seconds_def py_bind_def float_defs)

lemma percent_29: "percent_expr (JInt 290000000) (JInt 1000000000) = Inr 28"
  by (simp add: percent_expr_def py_bind_def float_defs)

lemma percent_29_small: "percent_expr (JInt 29) (JInt 100) = Inr 28"
  by (simp add: percent_expr_def py_bind_def float_defs)

lemma percent_25: "percent_expr (JInt 150000000) (JInt 600000000) = Inr 25"
  by (simp add: percent_expr_def py_bind_def float_defs)



lemma included_dev1:
  "should_include_session rp (Some ''dev1'') (JObj (playing p r)) = Inr True"
  by (simp add: should_include_session_def playing_def dict_get_def)

lemma progress_of_session_playing:
  "progress_of_session rp (Some ''dev1'') (JObj (playing p r))
     = (if 0 < r then py_bind (percent_expr (JInt p) (JInt r)) (\<lambda>v. Inr (Some v)) else Inr None)"
  by (simp add: progress_of_session_def included_dev1 py_bind_def)
     (simp add: playing_def dict_get_def py_bind_def py_gt_0_def)

lemma native_value_playing:
  "progress_percent_native_value rp (Some ''dev1'') (coordinator_playing p r)
     = (if 0 < r then percent_expr (JInt p) (JInt r) else Inr 0)"
  by (cases "percent_expr (JInt p) (JInt r)")
     (simp_all add: progress_percent_native_value_def coordinator_playing_def
       coordinator_with_def dict_get_def py_bind_def
       progress_of_session_playing)

lemma progress_percent_ticks:
  "progress_percent (JObj [(''PositionTicks'', JInt p)]) (JObj [(''RunTimeTicks'', JInt r)])
     = (if 0 < r then percent_expr (JInt p) (JInt r) else Inr 0)"
  by (simp add: progress_percent_def py_bind_def py_gt_0_def dict_get_def)

text \<open>
  Claim C5. The claim asks for \<open>\<lfloor>100 * PositionTicks / RunTimeTicks\<rfloor>\<close>. The sensor
  computes \<^verbatim>\<open>int((position_ticks / runtime_ticks) * 100)\<close> in binary64 arithmetic:
  at 290000000 of 1000000000 ticks, as at 29 of 100, the quotient rounds to a number
  below 0.29, the product to 28.999999999999996, and the sensor shows 28 where the
  claim asks for 29. The other parts of the claim hold: the scenario with 150000000
  of 600000000 ticks yields 25, a runtime of 0 yields 0, and no
  \<^verbatim>\<open>ZeroDivisionError\<close> is raised (\<open>progress_percent_no_zero_division\<close>).
\<close>

theorem progress_is_28_at_29_percent:
  "progress_percent_native_value unused_repr (Some ''dev1'')
       (coordinator_playing 290000000 1000000000) = Inr 28
   \<and> progress_percent (JObj [(''PositionTicks'', JInt 290000000)])
       (JObj [(''RunTimeTicks'', JInt 1000000000)]) = Inr 28
   \<and> percent_expr (JInt 29) (JInt 100) = Inr 28
   \<and> (290000000 * 100) div 1000000000 = (29 :: int)
   \<and> progress_percent_native_value unused_repr (Some ''dev1'')
       (coordinator_playing 150000000 600000000) = Inr 25
   \<and> progress_percent (JObj [(''PositionTicks'', JInt 150000000)])
       (JObj [(''RunTimeTicks'', JInt 0)]) = Inr 0
   \<and> progress_percent_native_value unused_repr (Some ''dev1'')
       (coordinator_playing 150000000 0) = Inr 0"
  by (simp add: native_value_playing progress_percent_ticks percent_29 percent_29_small
      percent_25)

lemma media_duration_ticks:
  assumes "session_data self = Some s"
    and "dict_get s ''NowPlayingItem'' (JObj []) = JObj np"
    and "map_of np ''RunTimeTicks'' = Some (JInt t)" and "t \<noteq> 0"
  shows "media_duration self = py_bind (ticks_to_seconds t) (\<lambda>v. Inr (Some v))"
proof -
  have "s \<noteq> []" using assms(2,3) by (auto simp: dict_get_def)
  with assms show ?thesis
    by (simp add: media_duration_def has_session_data_def dict_get_def py_bind_def
        seconds_expr_def)
qed

lemma media_position_ticks:
  assumes "session_data self = Some s"
    and "dict_get s ''PlayState'' (JObj []) = JObj ps"
    and "map_of ps ''PositionTicks'' = Some (JInt t)" and "t \<noteq> 0"
  shows "media_position self = py_bind (ticks_to_seconds t) (\<lambda>v. Inr (Some v))"
proof -
  have "s \<noteq> []" using assms(2,3) by (auto simp: dict_get_def)
  with assms show ?thesis
    by (simp add: media_position_def has_session_data_def dict_get_def py_bind_def
        seconds_expr_def)
qed

lemma remaining_of_session_ticks:
  assumes "should_include_session rp device_filter (JObj s) = Inr True"
    and "dict_get s ''NowPlayingItem'' JNull = JObj np"
    and "dict_get s ''PlayState'' (JObj []) = JObj ps"
    and "map_of ps ''PositionTicks'' = Some (JInt p)"
    and "map_of np ''RunTimeTicks'' = Some (JInt r)"
    and "0 < p" "0 < r"
  shows "remaining_of_session rp device_filter (JObj s)
           = py_bind (ticks_to_seconds (r - p)) (\<lambda>v. Inr (Some v))"
proof -
  have "np \<noteq> []" using assms(5) by auto
  with assms show ?thesis
    by (simp add: remaining_of_session_def py_bind_def dict_get_def py_gt_0_def)
qed

text \<open>
  Claim C6, as stated for every tick value, fails for durations beyond \<open>2 ^ 30\<close>
  seconds (34 years): \<^verbatim>\<open>int(ticks / 10000000)\<close> divides in binary64 arithmetic, and
  at 10737418249999999 ticks the quotient 1073741824.9999999 rounds to 1073741825.0,
  one second more than the floor.
\<close>

theorem rounds_up_beyond_34_years:
  "ticks_to_seconds 10737418249999999 = Inr 1073741825
   \<and> 10737418249999999 div 10000000 = (1073741824 :: int)
   \<and> media_duration (player_playing 0 10737418249999999) = Inr (Some 1073741825)"
proof -
  have "media_duration (player_playing 0 10737418249999999)
          = py_bind (ticks_to_seconds 10737418249999999) (\<lambda>v. Inr (Some v))"
    by (rule media_duration_ticks [where s = "playing 0 10737418249999999"
          and np = "[(''Name'', JStr ''Film''), (''RunTimeTicks'', JInt 10737418249999999)]"])
       (simp_all add: player_playing_def playing_def dict_get_def)
  then show ?thesis by (simp add: seconds_beyond py_bind_def)
qed

text \<open>
  Claim C6, amended. For every tick value from 0 to below \<open>2 ^ 30 * 10000000\<close>
  (10737418240000000 ticks), \<^verbatim>\<open>int(ticks / 10000000)\<close> is the floor division by
  10000000; so are then the duration and the position of the media player, for a
  positive tick value in that range, and the remaining seconds of the remaining-time
  sensor, for a position that is positive and not beyond a runtime in that range.
\<close>

theorem ticks_to_seconds_exact:
  "(0 \<le> t \<and> t < 10737418240000000 \<longrightarrow> ticks_to_seconds t = Inr (t div 10000000))
   \<and> (0 < t \<and> t < 10737418240000000 \<and> session_data self = Some s
        \<and> dict_get s ''NowPlayingItem'' (JObj []) = JObj np
        \<and> map_of np ''RunTimeTicks'' = Some (JInt t) \<longrightarrow>
        media_duration self = Inr (Some (t div 10000000)))
   \<and> (0 < t \<and> t < 10737418240000000 \<and> session_data self = Some s
        \<and> dict_get s ''PlayState'' (JObj []) = JObj ps
        \<and> map_of ps ''PositionTicks'' = Some (JInt t) \<longrightarrow>
        media_position self = Inr (Some (t div 10000000)))
   \<and> (0 < p \<and> p \<le> r \<and> r < 10737418240000000
        \<and> should_include_session container_repr device_filter (JObj s) = Inr True
        \<and> dict_get s ''NowPlayingItem'' JNull = JObj np
        \<and> dict_get s ''PlayState'' (JObj []) = JObj ps
        \<and> map_of ps ''PositionTicks'' = Some (JInt p)
        \<and> map_of np ''RunTimeTicks'' = Some (JInt r) \<longrightarrow>
        remaining_of_session container_repr device_filter (JObj s)
          = Inr (Some ((r - p) div 10000000)))"
proof (intro conjI impI)
  assume "0 \<le> t \<and> t < 10737418240000000"
  then show "ticks_to_seconds t = Inr (t div 10000000)"
    using ticks_to_seconds_floor [of t] by simp
next
  assume h: "0 < t \<and> t < 10737418240000000 \<and> session_data self = Some s
        \<and> dict_get s ''NowPlayingItem'' (JObj []) = JObj np
        \<and> map_of np ''RunTimeTicks'' = Some (JInt t)"
  then have "ticks_to_seconds t = Inr (t div 10000000)"
    using ticks_to_seconds_floor [of t] by simp
  moreover have "media_duration self = py_bind (ticks_to_seconds t) (\<lambda>v. Inr (Some v))"
    using h by (intro media_duration_ticks [of self s np t]) simp_all
  ultimately show "media_duration self = Inr (Some (t div 10000000))"
    by (simp add: py_bind_def)
next
  assume h: "0 < t \<and> t < 10737418240000000 \<and> session_data self = Some s
        \<and> dict_get s ''PlayState'' (JObj []) = JObj ps
        \<and> map_of ps ''PositionTicks'' = Some (JInt t)"
  then have "ticks_to_seconds t = Inr (t div 10000000)"
    using ticks_to_seconds_floor [of t] by simp
  moreover have "media_position self = py_bind (ticks_to_seconds t) (\<lambda>v. Inr (Some v))"
    using h by (intro media_position_ticks [of self s ps t]) simp_all
  ultimately show "media_position self = Inr (Some (t div 10000000))"
    by (simp add: py_bind_def)
next
  assume h: "0 < p \<and> p \<le> r \<and> r < 10737418240000000
        \<and> should_include_session container_repr device_filter (JObj s) = Inr True
        \<and> dict_get s ''NowPlayingItem'' JNull = JObj np
        \<and> dict_get s ''PlayState'' (JObj []) = JObj ps
        \<and> map_of ps ''PositionTicks'' = Some (JInt p)
        \<and> map_of np ''RunTimeTicks'' = Some (JInt r)"
  then have "ticks_to_seconds (r - p) = Inr ((r - p) div 10000000)"
    using ticks_to_seconds_floor [of "r - p"] by simp
  moreover have "remaining_of_session container_repr device_filter (JObj s)
           = py_bind (ticks_to_seconds (r - p)) (\<lambda>v. Inr (Some v))"
    using h by (intro remaining_of_session_ticks [of container_repr device_filter s np ps p r])
      simp_all
  ultimately show "remaining_of_session container_repr device_filter (JObj s)
          = Inr (Some ((r - p) div 10000000))"
    by (simp add: py_bind_def)
qed


text \<open>The tick values of the specification: 10000000 and 25000000 ticks, and scenario C.\<close>

theorem ticks_to_seconds_exact_witness:
  "ticks_to_seconds 10000000 = Inr 1
   \<and> ticks_to_seconds 25000000 = Inr 2
   \<and> media_position (player_playing 150000000 600000000) = Inr (Some 15)
   \<and> media_duration (player_playing 150000000 600000000) = Inr (Some 60)
   \<and> remaining_of_session unused_repr (Some ''dev1'') (JObj (playing 150000000 600000000))
       = Inr (Some 45)"
proof -
  let ?s = "playing 150000000 600000000"
  let ?np = "[(''Name'', JStr ''Film''), (''RunTimeTicks'', JInt 600000000)]"
  let ?ps = "[(''PositionTicks'', JInt 150000000)]"
  let ?self = "player_playing 150000000 600000000"
  let ?rp = "unused_repr"
  have session: "session_data ?self = Some ?s"
    by (simp add: player_playing_def)
  have np: "dict_get ?s ''NowPlayingItem'' (JObj []) = JObj ?np"
    "dict_get ?s ''NowPlayingItem'' JNull = JObj ?np"
    "map_of ?np ''RunTimeTicks'' = Some (JInt 600000000)"
    by (simp_all add: playing_def dict_get_def)
  have ps: "dict_get ?s ''PlayState'' (JObj []) = JObj ?ps"
    "map_of ?ps ''PositionTicks'' = Some (JInt 150000000)"
    by (simp_all add: playing_def dict_get_def)
  have included: "should_include_session ?rp (Some ''dev1'') (JObj ?s) = Inr True"
    by (rule included_dev1)
  from ticks_to_seconds_exact [of 10000000]
  have 1: "ticks_to_seconds 10000000 = Inr 1" by simp
  from ticks_to_seconds_exact [of 25000000]
  have 2: "ticks_to_seconds 25000000 = Inr 2" by simp
  from ticks_to_seconds_exact [where t = 150000000 and self = ?self and s = ?s and ps = ?ps]
    session ps
  have 3: "media_position ?self = Inr (Some 15)" by simp
  from ticks_to_seconds_exact [where t = 600000000 and self = ?self and s = ?s and np = ?np]
    session np
  have 4: "media_duration ?self = Inr (Some 60)" by simp
  from ticks_to_seconds_exact [where p = 150000000 and r = 600000000 and s = ?s and np = ?np
      and ps = ?ps and container_repr = ?rp and device_filter = "Some ''dev1''"]
    np ps included
  have 5: "remaining_of_session ?rp (Some ''dev1'') (JObj ?s) = Inr (Some 45)" by simp
  from 1 2 3 4 5 show ?thesis by simp
qed

lemma remaining_native_value_45:
  "playback_remaining_native_value unused_repr (Some ''dev1'')
     (coordinator_playing 150000000 600000000) = Inr ''00:45''"
proof -
  have "remaining_of_session unused_repr (Some ''dev1'') (JObj (playing 150000000 600000000))
          = py_bind (ticks_to_seconds (600000000 - 150000000)) (\<lambda>v. Inr (Some v))"
    by (rule remaining_of_session_ticks [OF included_dev1, where np = "[(''Name'', JStr ''Film''),
          (''RunTimeTicks'', JInt 600000000)]" and ps = "[(''PositionTicks'', JInt 150000000)]"])
       (simp_all add: playing_def dict_get_def)
  moreover have "ticks_to_seconds 450000000 = Inr 45"
    using ticks_to_seconds_floor [of 450000000] by simp
  ultimately have "remaining_of_session unused_repr (Some ''dev1'')
      (JObj (playing 150000000 600000000)) = Inr (Some 45)"
    by (simp add: py_bind_def)
  moreover have "remaining_text 45 = ''00:45''"
    by (simp add: remaining_text_def format_02d_def str_int_def nat_digits.simps)
  ultimately show ?thesis
    by (simp add: playback_remaining_native_value_def coordinator_playing_def
        coordinator_with_def dict_get_def py_bind_def)
qed

end
